theory Spec2Isabelle
  imports Main "HOL-Library.Word"
begin

section \<open>JavaScript values\<close>

text \<open>
  The webhook of \<^verbatim>\<open>src/app/api/bot/route.ts\<close> works on values that come out of
  \<^verbatim>\<open>JSON.parse\<close> (the request body, the answers of the Telegram and Groq services), so
  the model is dynamically typed, as the running code is. A string is its list of UTF-16
  code units, a byte buffer a list of bytes. A number is given by the text JavaScript
  prints for it (\<^verbatim>\<open>String(n)\<close>, which tells the finite numbers apart up to the sign of
  zero): the handler only renders numbers as text and tests them for being zero, and the
  two zeros are both printed as \<^verbatim>\<open>0\<close>.
\<close>

type_synonym byte = "8 word"
type_synonym jsstring = "16 word list"

definition lit :: "string \<Rightarrow> jsstring" where
  "lit s = map of_char s"

datatype jsval =
    JUndefined
  | JNull
  | JBool bool
  | JNum jsstring
  | JStr jsstring
  | JArr "jsval list"
  | JObj "(jsstring \<times> jsval) list"

text \<open>
  An exception value. \<open>Error m\<close> is \<^verbatim>\<open>new Error(m)\<close>; \<open>ErrorJSON p v\<close> is
  \<^verbatim>\<open>new Error(p + JSON.stringify(v))\<close>, whose serialisation nothing in the handler
  inspects; \<open>Fault n\<close> is any fault raised inside a collaborator (network, authentication,
  quota, a broken stream).
\<close>

datatype error = TypeError | SyntaxError | Error jsstring | ErrorJSON jsstring jsval | Fault nat

text \<open>The three states in which a promise can stay for ever.\<close>

datatype 'a outcome = Fulfilled 'a | Rejected error | Pending

text \<open>JavaScript's \<^verbatim>\<open>ToBoolean\<close> on the values above.\<close>

fun truthy :: "jsval \<Rightarrow> bool" where
  "truthy JUndefined = False"
| "truthy JNull = False"
| "truthy (JBool b) = b"
| "truthy (JNum n) = (n \<noteq> lit ''0'')"
| "truthy (JStr s) = (s \<noteq> [])"
| "truthy (JArr xs) = True"
| "truthy (JObj kvs) = True"

text \<open>
  \<^verbatim>\<open>v.k\<close>: reading a property of \<^verbatim>\<open>undefined\<close> or \<^verbatim>\<open>null\<close> throws a TypeError; an
  object gives its own property (the last binding of the key, as \<^verbatim>\<open>JSON.parse\<close> keeps
  it) or \<^verbatim>\<open>undefined\<close>. The function is used at the property names the handler reads
  (\<^verbatim>\<open>message\<close>, \<^verbatim>\<open>voice\<close>, \<^verbatim>\<open>chat\<close>, \<^verbatim>\<open>id\<close>, \<^verbatim>\<open>file_id\<close>, \<^verbatim>\<open>ok\<close>, \<^verbatim>\<open>description\<close>,
  \<^verbatim>\<open>result\<close>, \<^verbatim>\<open>file_path\<close>, \<^verbatim>\<open>text\<close>, \<^verbatim>\<open>choices\<close>, \<^verbatim>\<open>content\<close>), none of which a
  prototype of a string, number, boolean or array defines.
\<close>

fun property :: "jsval \<Rightarrow> jsstring \<Rightarrow> error + jsval" where
  "property JUndefined k = Inl TypeError"
| "property JNull k = Inl TypeError"
| "property (JObj kvs) k = Inr (case map_of (rev kvs) k of None \<Rightarrow> JUndefined | Some v \<Rightarrow> v)"
| "property v k = Inr JUndefined"

text \<open>\<^verbatim>\<open>v?.k\<close>: \<^verbatim>\<open>undefined\<close> where \<^verbatim>\<open>v.k\<close> would throw.\<close>

definition opt_prop :: "jsval \<Rightarrow> jsstring \<Rightarrow> jsval" where
  "opt_prop v k = (case property v k of Inl e \<Rightarrow> JUndefined | Inr x \<Rightarrow> x)"

text \<open>\<^verbatim>\<open>v[0]\<close>.\<close>

fun index0 :: "jsval \<Rightarrow> error + jsval" where
  "index0 JUndefined = Inl TypeError"
| "index0 JNull = Inl TypeError"
| "index0 (JArr xs) = Inr (case xs of [] \<Rightarrow> JUndefined | x # _ \<Rightarrow> x)"
| "index0 (JStr s) = Inr (case s of [] \<Rightarrow> JUndefined | c # _ \<Rightarrow> JStr [c])"
| "index0 (JObj kvs) = property (JObj kvs) (lit ''0'')"
| "index0 v = Inr JUndefined"

subsection \<open>Rendering a value as text\<close>

text \<open>
  \<^verbatim>\<open>`${v}`\<close>, the conversion a template literal applies. An object parsed from JSON is
  rendered by \<^verbatim>\<open>Object.prototype.toString\<close>, unless it has a property \<^verbatim>\<open>toString\<close> of its
  own: that property is not callable, \<^verbatim>\<open>valueOf\<close> gives no primitive either, and the
  conversion throws a TypeError. An array is rendered by \<^verbatim>\<open>join\<close>, where \<^verbatim>\<open>null\<close> and
  \<^verbatim>\<open>undefined\<close> elements are empty.
\<close>

fun to_str :: "jsval \<Rightarrow> error + jsstring"
  and join :: "jsval list \<Rightarrow> error + jsstring"
  and element :: "jsval \<Rightarrow> error + jsstring"
where
  "to_str JUndefined = Inr (lit ''undefined'')"
| "to_str JNull = Inr (lit ''null'')"
| "to_str (JBool b) = Inr (lit (if b then ''true'' else ''false''))"
| "to_str (JNum n) = Inr n"
| "to_str (JStr s) = Inr s"
| "to_str (JArr xs) = join xs"
| "to_str (JObj kvs) =
     (if lit ''toString'' \<in> fst ` set kvs then Inl TypeError else Inr (lit ''[object Object]''))"
| "join [] = Inr []"
| "join [x] = element x"
| "join (x # y # ys) =
     (case element x of
        Inl e \<Rightarrow> Inl e
      | Inr s \<Rightarrow> (case join (y # ys) of Inl e \<Rightarrow> Inl e | Inr r \<Rightarrow> Inr (s @ lit '','' @ r)))"
| "element JUndefined = Inr []"
| "element JNull = Inr []"
| "element v = to_str v"

text \<open>\<^verbatim>\<open>v.toString()\<close>: as above, but there is no method to call on \<^verbatim>\<open>undefined\<close> or \<^verbatim>\<open>null\<close>.\<close>

definition toString :: "jsval \<Rightarrow> error + jsstring" where
  "toString v = (if v = JUndefined \<or> v = JNull then Inl TypeError else to_str v)"

subsection \<open>Trimming\<close>

text \<open>The code units that \<^verbatim>\<open>String.prototype.trim\<close> removes (white space and line terminators).\<close>

definition is_ws :: "16 word \<Rightarrow> bool" where
  "is_ws c \<longleftrightarrow>
     c \<in> set [0x9, 0xA, 0xB, 0xC, 0xD, 0x20, 0xA0, 0x1680, 0x2028, 0x2029, 0x202F, 0x205F,
              0x3000, 0xFEFF]
     \<or> (0x2000 \<le> c \<and> c \<le> 0x200A)"

definition trim :: "jsstring \<Rightarrow> jsstring" where
  "trim s = rev (dropWhile is_ws (rev (dropWhile is_ws s)))"

text \<open>
  \<^verbatim>\<open>!t || t.trim() === ''\<close> (line 182): a truthy value that is not a string has no method
  \<^verbatim>\<open>trim\<close>, and the call throws.
\<close>

definition blank :: "jsval \<Rightarrow> error + bool" where
  "blank t = (if \<not> truthy t then Inr True
              else case t of JStr s \<Rightarrow> Inr (trim s = []) | _ \<Rightarrow> Inl TypeError)"

section \<open>Collaborators and their calls\<close>

text \<open>What the handler uses of a \<^verbatim>\<open>fetch\<close> response.\<close>

record response =
  ok :: bool
  statusText :: jsstring
  json :: "jsval outcome"
  arrayBuffer :: "byte list outcome"

text \<open>
  The events of the readable stream of \<^verbatim>\<open>tts.toStream\<close>, in the order in which its
  listeners see them.
\<close>

datatype stream_event = Data "byte list" | End | StreamError error

text \<open>
  The outside world of one invocation: what every collaborator answers to every request.
  \<open>toStream\<close> gives the events the stream will emit; a call that throws at once is the
  stream \<open>[StreamError e]\<close>.
\<close>

record env =
  fetch_getFile :: "jsstring \<Rightarrow> response outcome"
  fetch_file :: "jsstring \<Rightarrow> response outcome"
  transcriptions_create :: "byte list \<Rightarrow> jsval outcome"
  completions_create :: "jsval \<Rightarrow> jsval outcome"
  setMetadata :: "unit outcome"
  toStream :: "jsval \<Rightarrow> stream_event list"
  fetch_sendVoice :: "jsstring \<Rightarrow> byte list \<Rightarrow> response outcome"
  fetch_sendMessage :: "jsval \<Rightarrow> jsstring \<Rightarrow> response outcome"

text \<open>
  The inbound request: the result of \<^verbatim>\<open>request.json()\<close>, and whether
  \<^verbatim>\<open>request.clone().json()\<close> in the catch block can deliver the body a second time, after
  line 152 has read it. The class of the request is not part of the repository, so this is
  a parameter: a re-read gives the same body or throws. The request the handler really
  gets is a \<^verbatim>\<open>NextRequest\<close>, a \<^verbatim>\<open>Request\<close> of the Fetch standard, whose \<^verbatim>\<open>clone\<close> throws a
  TypeError once the body has been read: for it \<open>clone_readable\<close> is false.
\<close>

record request =
  request_json :: "jsval outcome"
  clone_readable :: bool

text \<open>
  An outbound call with its arguments: the file identifier and the path as rendered into
  the URL, the chat identity as \<^verbatim>\<open>sendVoice\<close> (a form field) and \<^verbatim>\<open>sendMessage\<close> (a
  JSON member) pass it on.
\<close>

datatype call =
    GetFile jsstring
  | Download jsstring
  | Transcribe "byte list"
  | Generate jsval
  | SetMetadata
  | ToStream jsval
  | SendVoice jsstring "byte list"
  | SendMessage jsval jsstring

text \<open>
  How a call ended: \<open>Accepted\<close> (answered; with a 2xx status where it is an HTTP request),
  \<open>Refused\<close> (answered with another status), \<open>Faulted\<close> (the promise rejected), \<open>Hung\<close>
  (it never settled).
\<close>

datatype status = Accepted | Refused | Faulted | Hung

type_synonym trace = "(call \<times> status) list"

text \<open>An asynchronous computation: how its promise ends, and the calls it made on the way.\<close>

type_synonym 'a act = "'a outcome \<times> trace"

definition fetch_status :: "response outcome \<Rightarrow> status" where
  "fetch_status r =
     (case r of
        Fulfilled resp \<Rightarrow> if ok resp then Accepted else Refused
      | Rejected e \<Rightarrow> Faulted
      | Pending \<Rightarrow> Hung)"

definition call_status :: "'a outcome \<Rightarrow> status" where
  "call_status r = (case r of Fulfilled v \<Rightarrow> Accepted | Rejected e \<Rightarrow> Faulted | Pending \<Rightarrow> Hung)"

definition ret :: "'a \<Rightarrow> 'a act" where
  "ret v = (Fulfilled v, [])"

definition throw :: "error \<Rightarrow> 'a act" where
  "throw e = (Rejected e, [])"

text \<open>A synchronous expression that may throw.\<close>

definition eval :: "error + 'a \<Rightarrow> 'a act" where
  "eval r = (case r of Inl e \<Rightarrow> throw e | Inr v \<Rightarrow> ret v)"

text \<open>A promise that belongs to a call already made (the body of a response, of the request).\<close>

definition settle :: "'a outcome \<Rightarrow> 'a act" where
  "settle r = (r, [])"

text \<open>An outbound call.\<close>

definition perform :: "call \<Rightarrow> status \<Rightarrow> 'a outcome \<Rightarrow> 'a act" where
  "perform c s r = (r, [(c, s)])"

text \<open>\<^verbatim>\<open>const v = await m; ...\<close>: a rejection or a promise that never settles ends the function.\<close>

definition await :: "'a act \<Rightarrow> ('a \<Rightarrow> 'b act) \<Rightarrow> 'b act" where
  "await m f =
     (case m of
        (Fulfilled v, t) \<Rightarrow> (case f v of (r, t') \<Rightarrow> (r, t @ t'))
      | (Rejected e, t) \<Rightarrow> (Rejected e, t)
      | (Pending, t) \<Rightarrow> (Pending, t))"

text \<open>\<^verbatim>\<open>try { m } catch (e) { h }\<close>.\<close>

definition catch :: "'a act \<Rightarrow> (error \<Rightarrow> 'a act) \<Rightarrow> 'a act" where
  "catch m h =
     (case m of
        (Rejected e, t) \<Rightarrow> (case h e of (r, t') \<Rightarrow> (r, t @ t'))
      | (Fulfilled v, t) \<Rightarrow> (Fulfilled v, t)
      | (Pending, t) \<Rightarrow> (Pending, t))"

section \<open>The functions of route.ts\<close>

definition getTelegramFilePath :: "env \<Rightarrow> jsval \<Rightarrow> jsval act" where
  "getTelegramFilePath env fileId =
     await (eval (to_str fileId)) (\<lambda>fid.
     await (let r = fetch_getFile env fid in perform (GetFile fid) (fetch_status r) r) (\<lambda>response.
     await (settle (json response)) (\<lambda>data.
     await (eval (property data (lit ''ok''))) (\<lambda>data_ok.
     if \<not> truthy data_ok then
       await (eval (property data (lit ''description''))) (\<lambda>description.
       await (eval (to_str description)) (\<lambda>d.
       throw (Error (lit ''Failed to get file path: '' @ d))))
     else
       await (eval (property data (lit ''result''))) (\<lambda>result.
       eval (property result (lit ''file_path'')))))))"

definition downloadTelegramFile :: "env \<Rightarrow> jsval \<Rightarrow> byte list act" where
  "downloadTelegramFile env filePath =
     await (eval (to_str filePath)) (\<lambda>path.
     await (let r = fetch_file env path in perform (Download path) (fetch_status r) r) (\<lambda>response.
     if \<not> ok response then
       throw (Error (lit ''Failed to download file: '' @ statusText response))
     else settle (arrayBuffer response)))"

definition transcribeAudio :: "env \<Rightarrow> byte list \<Rightarrow> jsval act" where
  "transcribeAudio env audioBuffer =
     await (let r = transcriptions_create env audioBuffer
            in perform (Transcribe audioBuffer) (call_status r) r) (\<lambda>transcription.
     eval (property transcription (lit ''text'')))"

definition fallback_reply :: jsstring where
  "fallback_reply = lit ''I apologize, I could not generate a response.''"

definition getTutorResponse :: "env \<Rightarrow> jsval \<Rightarrow> jsval act" where
  "getTutorResponse env userMessage =
     await (let r = completions_create env userMessage
            in perform (Generate userMessage) (call_status r) r) (\<lambda>completion.
     await (eval (property completion (lit ''choices''))) (\<lambda>choices.
     await (eval (index0 choices)) (\<lambda>choice.
     let content = opt_prop (opt_prop choice (lit ''message'')) (lit ''content'')
     in ret (if truthy content then content else JStr fallback_reply))))"

text \<open>
  The promise of lines 99 to 111 over the events of the stream: \<^verbatim>\<open>data\<close> pushes a chunk,
  the first \<^verbatim>\<open>end\<close> resolves with the concatenation of the chunks pushed so far, the first
  \<^verbatim>\<open>error\<close> rejects; a stream that emits neither leaves the promise pending.
\<close>

fun drain :: "byte list list \<Rightarrow> stream_event list \<Rightarrow> byte list outcome" where
  "drain chunks [] = Pending"
| "drain chunks (Data chunk # es) = drain (chunks @ [chunk]) es"
| "drain chunks (End # es) = Fulfilled (concat chunks)"
| "drain chunks (StreamError err # es) = Rejected err"

definition generateSpeech :: "env \<Rightarrow> jsval \<Rightarrow> byte list act" where
  "generateSpeech env text =
     await (let r = setMetadata env in perform SetMetadata (call_status r) r) (\<lambda>_.
     let r = drain [] (toStream env text) in perform (ToStream text) (call_status r) r)"

definition sendVoiceToTelegram :: "env \<Rightarrow> jsval \<Rightarrow> byte list \<Rightarrow> unit act" where
  "sendVoiceToTelegram env chatId audioBuffer =
     await (eval (toString chatId)) (\<lambda>chat_id.
     await (let r = fetch_sendVoice env chat_id audioBuffer
            in perform (SendVoice chat_id audioBuffer) (fetch_status r) r) (\<lambda>response.
     if \<not> ok response then
       await (settle (json response)) (\<lambda>errorData.
       throw (ErrorJSON (lit ''Failed to send voice: '') errorData))
     else ret ()))"

definition sendMessageToTelegram :: "env \<Rightarrow> jsval \<Rightarrow> jsstring \<Rightarrow> unit act" where
  "sendMessageToTelegram env chatId text =
     await (let r = fetch_sendMessage env chatId text
            in perform (SendMessage chatId text) (fetch_status r) r) (\<lambda>_.
     ret ())"

subsection \<open>The POST handler\<close>

text \<open>What \<^verbatim>\<open>NextResponse.json\<close> builds: the payload and the HTTP status.\<close>

record next_response =
  payload :: jsval
  http_status :: nat

definition ok_response :: next_response where
  "ok_response = \<lparr>payload = JObj [(lit ''ok'', JBool True)], http_status = 200\<rparr>"

definition error_response :: next_response where
  "error_response =
     \<lparr>payload = JObj [(lit ''ok'', JBool False), (lit ''error'', JStr (lit ''Internal server error''))],
      http_status = 500\<rparr>"

definition notice_text :: jsstring where
  "notice_text = lit ''I couldn't understand the audio. Please try speaking more clearly.''"

definition apology_text :: jsstring where
  "apology_text = lit ''Sorry, I encountered an error processing your message. Please try again.''"

text \<open>
  The body of the outer \<^verbatim>\<open>try\<close> (lines 152 to 199) in three parts. The template literals
  of the \<^verbatim>\<open>console.log\<close> calls are evaluated where the source evaluates them, since
  rendering a value can throw.

  Lines 158 to 168, the ingress filter: \<open>None\<close> where the handler skips the update,
  otherwise the chat identity and the file identifier it goes on with.
\<close>

definition ingress :: "jsval \<Rightarrow> (jsval \<times> jsval) option act" where
  "ingress body =
     await (eval (property body (lit ''message''))) (\<lambda>message.
     if \<not> truthy message then ret None else
     await (eval (property message (lit ''voice''))) (\<lambda>voice.
     if \<not> truthy voice then ret None else
     await (eval (property message (lit ''chat''))) (\<lambda>chat.
     await (eval (property chat (lit ''id''))) (\<lambda>chatId.
     await (eval (property voice (lit ''file_id''))) (\<lambda>fileId.
     await (eval (to_str chatId)) (\<lambda>_.
     await (eval (to_str fileId)) (\<lambda>_.
     ret (Some (chatId, fileId)))))))))"

text \<open>Lines 170 to 199, steps 1 to 6.\<close>

definition pipeline :: "env \<Rightarrow> jsval \<Rightarrow> jsval \<Rightarrow> next_response act" where
  "pipeline env chatId fileId =
     await (getTelegramFilePath env fileId) (\<lambda>filePath.
     await (eval (to_str filePath)) (\<lambda>_.
     await (downloadTelegramFile env filePath) (\<lambda>audioBuffer.
     await (transcribeAudio env audioBuffer) (\<lambda>transcribedText.
     await (eval (to_str transcribedText)) (\<lambda>_.
     await (eval (blank transcribedText)) (\<lambda>empty.
     if empty then
       await (sendMessageToTelegram env chatId notice_text) (\<lambda>_.
       ret ok_response)
     else
       await (getTutorResponse env transcribedText) (\<lambda>tutorResponse.
       await (eval (to_str tutorResponse)) (\<lambda>_.
       await (generateSpeech env tutorResponse) (\<lambda>speechBuffer.
       await (sendVoiceToTelegram env chatId speechBuffer) (\<lambda>_.
       ret ok_response))))))))))"

text \<open>Lines 152 to 199.\<close>

definition try_block :: "env \<Rightarrow> request \<Rightarrow> next_response act" where
  "try_block env req =
     await (settle (request_json req)) (\<lambda>body.
     await (ingress body) (\<lambda>event.
     case event of
       None \<Rightarrow> ret ok_response
     | Some (chatId, fileId) \<Rightarrow> pipeline env chatId fileId))"

text \<open>Lines 206 to 212, the body of the inner \<^verbatim>\<open>try\<close>.\<close>

definition notify :: "env \<Rightarrow> request \<Rightarrow> unit act" where
  "notify env req =
     (if \<not> clone_readable req then throw TypeError else
      await (settle (request_json req)) (\<lambda>body.
      if truthy (opt_prop (opt_prop (opt_prop body (lit ''message'')) (lit ''chat'')) (lit ''id''))
      then
        await (eval (property body (lit ''message''))) (\<lambda>message.
        await (eval (property message (lit ''chat''))) (\<lambda>chat.
        await (eval (property chat (lit ''id''))) (\<lambda>chat_id.
        sendMessageToTelegram env chat_id apology_text)))
      else ret ()))"

text \<open>Lines 202 to 217, the body of the outer \<^verbatim>\<open>catch\<close>.\<close>

definition on_error :: "env \<Rightarrow> request \<Rightarrow> next_response act" where
  "on_error env req =
     await (catch (notify env req) (\<lambda>_. ret ())) (\<lambda>_.
     ret error_response)"

definition POST :: "env \<Rightarrow> request \<Rightarrow> next_response act" where
  "POST env req = catch (try_block env req) (\<lambda>error. on_error env req)"

section \<open>What a trace shows\<close>

fun is_voice :: "call \<Rightarrow> bool" where
  "is_voice (SendVoice chat_id audio) = True"
| "is_voice c = False"

fun is_text :: "call \<Rightarrow> bool" where
  "is_text (SendMessage chat_id text) = True"
| "is_text c = False"

text \<open>The calls of the responder, the synthesizer and the delivery, as opposed to those of
  the audio fetcher and the transcriber.\<close>

fun downstream :: "call \<Rightarrow> bool" where
  "downstream (GetFile fid) = False"
| "downstream (Download path) = False"
| "downstream (Transcribe audio) = False"
| "downstream c = True"

definition voice_calls :: "trace \<Rightarrow> trace" where
  "voice_calls t = filter (\<lambda>(c, s). is_voice c) t"

definition text_calls :: "trace \<Rightarrow> trace" where
  "text_calls t = filter (\<lambda>(c, s). is_text c) t"

definition downstream_calls :: "trace \<Rightarrow> trace" where
  "downstream_calls t = filter (\<lambda>(c, s). downstream c) t"

text \<open>The calls of the responder, the synthesizer and the voice delivery.\<close>

definition replying_calls :: "trace \<Rightarrow> trace" where
  "replying_calls t = filter (\<lambda>(c, s). downstream c \<and> \<not> is_text c) t"

text \<open>The calls that reached their collaborator and were accepted.\<close>

definition delivered :: "trace \<Rightarrow> trace" where
  "delivered t = filter (\<lambda>(c, s). s = Accepted) t"

text \<open>The voice and text messages sent, in one list.\<close>

definition sends :: "trace \<Rightarrow> trace" where
  "sends t = filter (\<lambda>(c, s). is_voice c \<or> is_text c) t"

text \<open>Line 159, negated: the update is taken for a voice message.\<close>

definition is_voice_message :: "jsval \<Rightarrow> bool" where
  "is_voice_message body \<longleftrightarrow>
     truthy (opt_prop body (lit ''message'')) \<and>
     truthy (opt_prop (opt_prop body (lit ''message'')) (lit ''voice''))"


text \<open>
  The generation service returned no completion, or a first completion without content
  (line 84).
\<close>

definition no_content :: "jsval \<Rightarrow> bool" where
  "no_content completion \<longleftrightarrow>
     (case property completion (lit ''choices'') of
        Inl e \<Rightarrow> False
      | Inr choices \<Rightarrow>
          (case index0 choices of
             Inl e \<Rightarrow> False
           | Inr choice \<Rightarrow> \<not> truthy (opt_prop (opt_prop choice (lit ''message'')) (lit ''content''))))"

text \<open>
  Every promise the handler may wait for settles: no collaborator hangs, no body is left
  unread, every synthesis stream ends or fails.
\<close>

definition responsive :: "env \<Rightarrow> bool" where
  "responsive env \<longleftrightarrow>
     (\<forall>fid. fetch_getFile env fid \<noteq> Pending \<and>
        (\<forall>r. fetch_getFile env fid = Fulfilled r \<longrightarrow> json r \<noteq> Pending)) \<and>
     (\<forall>path. fetch_file env path \<noteq> Pending \<and>
        (\<forall>r. fetch_file env path = Fulfilled r \<longrightarrow> arrayBuffer r \<noteq> Pending)) \<and>
     (\<forall>audio. transcriptions_create env audio \<noteq> Pending) \<and>
     (\<forall>msg. completions_create env msg \<noteq> Pending) \<and>
     setMetadata env \<noteq> Pending \<and>
     (\<forall>text. drain [] (toStream env text) \<noteq> Pending) \<and>
     (\<forall>chat_id audio. fetch_sendVoice env chat_id audio \<noteq> Pending \<and>
        (\<forall>r. fetch_sendVoice env chat_id audio = Fulfilled r \<longrightarrow> json r \<noteq> Pending)) \<and>
     (\<forall>chat_id text. fetch_sendMessage env chat_id text \<noteq> Pending)"

text \<open>
  At most one message was sent, and if it was accepted the computation went on to its end.
\<close>

definition single_send :: "'a act \<Rightarrow> bool" where
  "single_send m \<longleftrightarrow>
     length (sends (snd m)) \<le> 1 \<and>
     (delivered (sends (snd m)) \<noteq> [] \<longrightarrow> (\<exists>v. fst m = Fulfilled v))"

text \<open>The texts handed to the synthesis.\<close>

definition spoken :: "trace \<Rightarrow> jsval set" where
  "spoken t = {v. \<exists>st. (ToStream v, st) \<in> set t}"

text \<open>Every value the computation returns is the success acknowledgement.\<close>

definition returns_ok :: "next_response act \<Rightarrow> bool" where
  "returns_ok m \<longleftrightarrow> (\<forall>v. fst m = Fulfilled v \<longrightarrow> v = ok_response)"

text \<open>The promise of the computation settles.\<close>

definition settles :: "'a act \<Rightarrow> bool" where
  "settles m \<longleftrightarrow> fst m \<noteq> Pending"

section \<open>Concrete events and collaborators\<close>

text \<open>A voice update as Telegram sends it, with the given \<^verbatim>\<open>chat.id\<close> and \<^verbatim>\<open>voice.file_id\<close>.\<close>

definition voice_update :: "jsval \<Rightarrow> jsval \<Rightarrow> jsval" where
  "voice_update chat_id file_id =
     JObj [(lit ''message'',
            JObj [(lit ''chat'', JObj [(lit ''id'', chat_id)]),
                  (lit ''voice'', JObj [(lit ''file_id'', file_id)])])]"

text \<open>
  The request of a webhook delivery with the given body: once line 152 has read the body,
  the catch block cannot read it again.
\<close>

definition webhook :: "jsval \<Rightarrow> request" where
  "webhook body = \<lparr>request_json = Fulfilled body, clone_readable = False\<rparr>"

definition answer :: "bool \<Rightarrow> jsval \<Rightarrow> byte list \<Rightarrow> response" where
  "answer success data bytes =
     \<lparr>ok = success, statusText = lit (if success then ''OK'' else ''Bad Request''),
      json = Fulfilled data, arrayBuffer = Fulfilled bytes\<rparr>"

text \<open>
  The collaborators of the spec's round trip: the metadata answer names the path
  \<^verbatim>\<open>voice/abc.oga\<close>, the download has 9 bytes, the transcript is \<^verbatim>\<open>hello\<close>, the reply
  \<^verbatim>\<open>Hi! How can I help you practice English?\<close>, and the synthesis stream emits two chunks.
\<close>

definition reply_hi :: jsstring where
  "reply_hi = lit ''Hi! How can I help you practice English?''"

definition round_trip :: env where
  "round_trip =
     \<lparr>fetch_getFile = (\<lambda>fid. Fulfilled (answer True
        (JObj [(lit ''ok'', JBool True),
               (lit ''result'', JObj [(lit ''file_path'', JStr (lit ''voice/abc.oga''))])]) [])),
      fetch_file = (\<lambda>path. Fulfilled (answer True JNull [79, 103, 103, 83, 0, 2, 0, 0, 0])),
      transcriptions_create = (\<lambda>audio. Fulfilled (JObj [(lit ''text'', JStr (lit ''hello''))])),
      completions_create = (\<lambda>msg. Fulfilled
        (JObj [(lit ''choices'',
                JArr [JObj [(lit ''message'', JObj [(lit ''content'', JStr reply_hi)])]])])),
      setMetadata = Fulfilled (),
      toStream = (\<lambda>text. [Data [1, 2], Data [3], End]),
      fetch_sendVoice = (\<lambda>chat_id audio. Fulfilled (answer True JNull [])),
      fetch_sendMessage = (\<lambda>chat_id text. Fulfilled (answer True JNull []))\<rparr>"

text \<open>The metadata service does not know the file.\<close>

definition file_not_found :: env where
  "file_not_found =
     round_trip\<lparr>fetch_getFile := (\<lambda>fid. Fulfilled (answer True
        (JObj [(lit ''ok'', JBool False), (lit ''description'', JStr (lit ''file not found''))]) []))\<rparr>"

text \<open>The synthesis stream breaks after its first chunk.\<close>

definition broken_stream :: env where
  "broken_stream = round_trip\<lparr>toStream := (\<lambda>text. [Data [1, 2], StreamError (Fault 7)])\<rparr>"

text \<open>The transcript is white space only.\<close>

definition silent_audio :: env where
  "silent_audio =
     round_trip\<lparr>transcriptions_create := (\<lambda>audio. Fulfilled (JObj [(lit ''text'', JStr [0x20, 0x3000])]))\<rparr>"

text \<open>The transcript is white space only, and no text request reaches Telegram.\<close>

definition unreachable :: env where
  "unreachable = silent_audio\<lparr>fetch_sendMessage := (\<lambda>chat_id text. Rejected (Fault 3))\<rparr>"

text \<open>The generation service returns no completion.\<close>

definition no_completion :: env where
  "no_completion =
     round_trip\<lparr>completions_create := (\<lambda>msg. Fulfilled (JObj [(lit ''choices'', JArr [])]))\<rparr>"

section \<open>Basic facts\<close>

lemma unat_of_char: "unat (of_nat (of_char c :: nat) :: 16 word) = of_char c"
proof -
  have "(of_char c :: nat) < 256" by simp
  then have "(of_char c :: nat) < 65536" by linarith
  then show ?thesis by (simp add: unat_of_nat)
qed

lemma inj_of_char_word: "inj (of_char :: char \<Rightarrow> 16 word)"
proof (rule injI)
  fix c d :: char
  assume "(of_char c :: 16 word) = of_char d"
  then have "unat (of_nat (of_char c :: nat) :: 16 word) = unat (of_nat (of_char d :: nat) :: 16 word)"
    by (simp add: of_nat_of_char)
  then have "(of_char c :: nat) = of_char d"
    by (simp only: unat_of_char)
  then show "c = d" by simp
qed

lemma lit_inj [simp]: "lit a = lit b \<longleftrightarrow> a = b"
  by (simp add: lit_def inj_map_eq_map inj_of_char_word)

lemma lit_Nil [simp]: "lit s = [] \<longleftrightarrow> s = []"
  by (simp add: lit_def)

lemma await_ret [simp]: "await (ret v) f = f v"
  by (simp add: await_def ret_def split: prod.splits)

lemma await_throw [simp]: "await (throw e) f = throw e"
  by (simp add: await_def throw_def)

lemma eval_Inr [simp]: "eval (Inr v) = ret v"
  by (simp add: eval_def)

lemma eval_Inl [simp]: "eval (Inl e) = throw e"
  by (simp add: eval_def)

lemma await_settle_Fulfilled [simp]: "await (settle (Fulfilled v)) f = f v"
  by (simp add: await_def settle_def split: prod.splits)

lemma await_settle_Rejected [simp]: "await (settle (Rejected e)) f = throw e"
  by (simp add: await_def settle_def throw_def)

lemma await_settle_Pending [simp]: "await (settle Pending) f = (Pending, [])"
  by (simp add: await_def settle_def)

lemma fst_await:
  "fst (await m f) =
     (case fst m of Fulfilled v \<Rightarrow> fst (f v) | Rejected e \<Rightarrow> Rejected e | Pending \<Rightarrow> Pending)"
  by (cases m) (simp add: await_def split: outcome.splits prod.splits)

lemma snd_await:
  "snd (await m f) =
     snd m @ (case fst m of Fulfilled v \<Rightarrow> snd (f v) | Rejected e \<Rightarrow> [] | Pending \<Rightarrow> [])"
  by (cases m) (simp add: await_def split: outcome.splits prod.splits)

lemma catch_simps [simp]:
  "catch (Fulfilled v, t) h = (Fulfilled v, t)"
  "catch (Pending, t) h = (Pending, t)"
  "catch (Rejected e, t) h = (fst (h e), t @ snd (h e))"
  by (simp_all add: catch_def split: prod.splits)

lemma catch_throw [simp]: "catch (throw e) h = h e"
  by (simp add: throw_def)

lemma catch_ret [simp]: "catch (ret v) h = ret v"
  by (simp add: ret_def)

lemma await_perform [simp]:
  "await (perform c s (Fulfilled v)) f = (fst (f v), (c, s) # snd (f v))"
  "await (perform c s (Rejected e)) f = (Rejected e, [(c, s)])"
  "await (perform c s Pending) f = (Pending, [(c, s)])"
  by (simp_all add: await_def perform_def split: prod.splits)

lemma fst_ret [simp]: "fst (ret v) = Fulfilled v"
  and snd_ret [simp]: "snd (ret v) = []"
  and fst_throw [simp]: "fst (throw e) = Rejected e"
  and snd_throw [simp]: "snd (throw e) = []"
  by (simp_all add: ret_def throw_def)

lemma fetch_status_simps [simp]:
  "fetch_status (Fulfilled r) = (if ok r then Accepted else Refused)"
  "fetch_status (Rejected e) = Faulted"
  "fetch_status Pending = Hung"
  by (simp_all add: fetch_status_def)

lemma call_status_simps [simp]:
  "call_status (Fulfilled v) = Accepted"
  "call_status (Rejected e) = Faulted"
  "call_status Pending = Hung"
  by (simp_all add: call_status_def)

lemma opt_prop_simps [simp]:
  "opt_prop JUndefined k = JUndefined"
  "opt_prop JNull k = JUndefined"
  "opt_prop (JBool b) k = JUndefined"
  "opt_prop (JNum n) k = JUndefined"
  "opt_prop (JStr s) k = JUndefined"
  "opt_prop (JArr xs) k = JUndefined"
  "opt_prop (JObj kvs) k = (case map_of (rev kvs) k of None \<Rightarrow> JUndefined | Some v \<Rightarrow> v)"
  by (simp_all add: opt_prop_def)

lemma property_opt_prop:
  "v \<noteq> JUndefined \<Longrightarrow> v \<noteq> JNull \<Longrightarrow> property v k = Inr (opt_prop v k)"
  by (cases v) simp_all

lemma truthy_opt_prop: "truthy (opt_prop v k) \<Longrightarrow> property v k = Inr (opt_prop v k)"
  by (cases v) simp_all

lemma truthy_defined: "truthy v \<Longrightarrow> v \<noteq> JUndefined \<and> v \<noteq> JNull"
  by (cases v) simp_all


subsection \<open>The ingress filter\<close>

lemma await_eval: "await (eval x) f = (case x of Inl e \<Rightarrow> throw e | Inr v \<Rightarrow> f v)"
  by (cases x) simp_all

lemma ret_neq_throw [simp]: "ret v \<noteq> throw e" "throw e \<noteq> ret v"
  by (simp_all add: ret_def throw_def)

lemma ret_eq_iff [simp]: "ret v = ret w \<longleftrightarrow> v = w"
  by (simp add: ret_def)

lemma throw_eq_iff [simp]: "throw e = throw e' \<longleftrightarrow> e = e'"
  by (simp add: throw_def)

lemma ingress_skip:
  assumes "body \<noteq> JUndefined" "body \<noteq> JNull" "\<not> is_voice_message body"
  shows "ingress body = ret None"
proof -
  have m: "property body (lit ''message'') = Inr (opt_prop body (lit ''message''))"
    using assms(1,2) by (rule property_opt_prop)
  show ?thesis
  proof (cases "truthy (opt_prop body (lit ''message''))")
    case False
    then show ?thesis by (simp add: ingress_def m)
  next
    case True
    then have v: "property (opt_prop body (lit ''message'')) (lit ''voice'')
        = Inr (opt_prop (opt_prop body (lit ''message'')) (lit ''voice''))"
      by (simp add: property_opt_prop truthy_defined)
    from True assms(3) have "\<not> truthy (opt_prop (opt_prop body (lit ''message'')) (lit ''voice''))"
      by (simp add: is_voice_message_def)
    then show ?thesis by (simp add: ingress_def m v True)
  qed
qed

lemma ingress_voice:
  assumes "is_voice_message body"
  shows "ingress body =
      await (eval (property (opt_prop body (lit ''message'')) (lit ''chat''))) (\<lambda>chat.
      await (eval (property chat (lit ''id''))) (\<lambda>chatId.
      await (eval (property (opt_prop (opt_prop body (lit ''message'')) (lit ''voice'')) (lit ''file_id''))) (\<lambda>fileId.
      await (eval (to_str chatId)) (\<lambda>_.
      await (eval (to_str fileId)) (\<lambda>_.
      ret (Some (chatId, fileId)))))))"
proof -
  from assms have tm: "truthy (opt_prop body (lit ''message''))"
    and tv: "truthy (opt_prop (opt_prop body (lit ''message'')) (lit ''voice''))"
    by (simp_all add: is_voice_message_def)
  show ?thesis
    by (simp add: ingress_def truthy_opt_prop [OF tm] truthy_opt_prop [OF tv] tm tv)
qed

lemma ingress_trace [simp]: "snd (ingress body) = []"
  by (simp add: ingress_def snd_await fst_await eval_def split: outcome.splits sum.splits)

lemma ingress_voice_cases:
  assumes "is_voice_message body"
  shows "(\<exists>e. ingress body = throw e) \<or>
    (\<exists>chatId fileId fid. ingress body = ret (Some (chatId, fileId)) \<and>
       fileId = opt_prop (opt_prop (opt_prop body (lit ''message'')) (lit ''voice'')) (lit ''file_id'') \<and>
       chatId = opt_prop (opt_prop (opt_prop body (lit ''message'')) (lit ''chat'')) (lit ''id'') \<and>
       to_str fileId = Inr fid)"
  unfolding ingress_voice [OF assms]
  by (auto simp add: await_eval opt_prop_def split: sum.splits)

lemma ingress_Some:
  assumes "ingress body = ret (Some (chatId, fileId))"
  shows "is_voice_message body"
    and "chatId = opt_prop (opt_prop (opt_prop body (lit ''message'')) (lit ''chat'')) (lit ''id'')"
    and "fileId = opt_prop (opt_prop (opt_prop body (lit ''message'')) (lit ''voice'')) (lit ''file_id'')"
    and "\<exists>fid. to_str fileId = Inr fid"
proof -
  have d: "body \<noteq> JUndefined" "body \<noteq> JNull"
    using assms by (auto simp: ingress_def)
  show v: "is_voice_message body"
  proof (rule ccontr)
    assume "\<not> is_voice_message body"
    with d have "ingress body = ret None" by (rule ingress_skip)
    with assms show False by simp
  qed
  from ingress_voice_cases [OF v] assms
  show "chatId = opt_prop (opt_prop (opt_prop body (lit ''message'')) (lit ''chat'')) (lit ''id'')"
    and "fileId = opt_prop (opt_prop (opt_prop body (lit ''message'')) (lit ''voice'')) (lit ''file_id'')"
    and "\<exists>fid. to_str fileId = Inr fid"
    by auto
qed

lemma ingress_no_chat:
  assumes "is_voice_message body"
    and "opt_prop (opt_prop body (lit ''message'')) (lit ''chat'') = JUndefined"
  shows "ingress body = throw TypeError"
proof -
  from assms(1) have "truthy (opt_prop body (lit ''message''))"
    by (simp add: is_voice_message_def)
  then have "property (opt_prop body (lit ''message'')) (lit ''chat'')
      = Inr (opt_prop (opt_prop body (lit ''message'')) (lit ''chat''))"
    by (simp add: property_opt_prop truthy_defined)
  then have "property (opt_prop body (lit ''message'')) (lit ''chat'') = Inr JUndefined"
    by (simp add: assms(2))
  then show ?thesis
    by (simp add: ingress_voice [OF assms(1)])
qed

subsection \<open>The stages\<close>



subsection \<open>The handler\<close>

lemma await_pair [simp]:
  "await (Fulfilled v, t) f = (fst (f v), t @ snd (f v))"
  "await (Rejected e, t) f = (Rejected e, t)"
  "await (Pending, t) f = (Pending, t)"
  by (simp_all add: await_def split: prod.splits)

lemma truthy_opt_prop_obj: "truthy (opt_prop v k) \<Longrightarrow> truthy v"
  by (cases v) simp_all

lemma notify_readable:
  assumes "request_json req = Fulfilled body" and "clone_readable req"
    and "truthy (opt_prop (opt_prop (opt_prop body (lit ''message'')) (lit ''chat'')) (lit ''id''))"
  shows "notify env req = sendMessageToTelegram env
     (opt_prop (opt_prop (opt_prop body (lit ''message'')) (lit ''chat'')) (lit ''id'')) apology_text"
proof -
  let ?m = "opt_prop body (lit ''message'')"
  let ?c = "opt_prop ?m (lit ''chat'')"
  have c: "truthy ?c" using assms(3) by (rule truthy_opt_prop_obj)
  then have m: "truthy ?m" by (rule truthy_opt_prop_obj)
  show ?thesis
    by (simp add: notify_def assms truthy_opt_prop [OF assms(3)] truthy_opt_prop [OF c]
        truthy_opt_prop [OF m])
qed

lemma notify_quiet:
  assumes "request_json req = Fulfilled body"
    and "\<not> clone_readable req \<or>
      \<not> truthy (opt_prop (opt_prop (opt_prop body (lit ''message'')) (lit ''chat'')) (lit ''id''))"
  shows "catch (notify env req) (\<lambda>_. ret ()) = ret ()"
  using assms by (auto simp add: notify_def)

lemma sendMessage_result:
  "sendMessageToTelegram env c text =
     (case fetch_sendMessage env c text of
        Fulfilled r \<Rightarrow> Fulfilled () | Rejected e \<Rightarrow> Rejected e | Pending \<Rightarrow> Pending,
      [(SendMessage c text, fetch_status (fetch_sendMessage env c text))])"
  by (cases "fetch_sendMessage env c text")
     (simp_all add: sendMessageToTelegram_def Let_def ret_def)

lemma on_error_result:
  assumes "request_json req = Fulfilled body"
  shows "on_error env req =
    (let c = opt_prop (opt_prop (opt_prop body (lit ''message'')) (lit ''chat'')) (lit ''id'')
     in if clone_readable req \<and> truthy c
        then (if fetch_sendMessage env c apology_text = Pending then Pending
              else Fulfilled error_response,
              [(SendMessage c apology_text, fetch_status (fetch_sendMessage env c apology_text))])
        else (Fulfilled error_response, []))"
proof (cases "clone_readable req \<and>
    truthy (opt_prop (opt_prop (opt_prop body (lit ''message'')) (lit ''chat'')) (lit ''id''))")
  case True
  then show ?thesis
    by (cases "fetch_sendMessage env
          (opt_prop (opt_prop (opt_prop body (lit ''message'')) (lit ''chat'')) (lit ''id''))
          apology_text")
       (simp_all add: on_error_def notify_readable [OF assms] sendMessage_result ret_def Let_def)
next
  case False
  then show ?thesis
    using notify_quiet [OF assms, of env]
    by (auto simp add: on_error_def ret_def Let_def)
qed

text \<open>Where the request cannot be read a second time, the catch block notifies nobody.\<close>

lemma unreadable_request_no_apology:
  assumes "\<not> clone_readable req"
  shows "on_error env req = (Fulfilled error_response, [])"
  using assms by (simp add: on_error_def notify_def ret_def)

lemma on_error_unparsed:
  assumes "request_json req = Rejected e"
  shows "on_error env req = (Fulfilled error_response, [])"
  by (cases "clone_readable req") (simp_all add: on_error_def notify_def assms ret_def)

lemma POST_parsed:
  assumes "request_json req = Fulfilled body"
  shows "POST env req =
     catch (await (ingress body) (\<lambda>event. case event of None \<Rightarrow> ret ok_response
        | Some (chatId, fileId) \<Rightarrow> pipeline env chatId fileId)) (\<lambda>error. on_error env req)"
  by (simp add: POST_def try_block_def assms)

lemma POST_skip:
  assumes "request_json req = Fulfilled body" and "ingress body = ret None"
  shows "POST env req = (Fulfilled ok_response, [])"
  by (simp add: POST_parsed [OF assms(1)] assms(2)) (simp add: ret_def)

lemma POST_pipeline:
  assumes "request_json req = Fulfilled body" and "ingress body = ret (Some (chatId, fileId))"
  shows "POST env req = catch (pipeline env chatId fileId) (\<lambda>error. on_error env req)"
  by (simp add: POST_parsed [OF assms(1)] assms(2))

lemma POST_ingress_throws:
  assumes "request_json req = Fulfilled body" and "ingress body = throw e"
  shows "POST env req = on_error env req"
  by (simp add: POST_parsed [OF assms(1)] assms(2))

lemma snd_catch:
  "snd (catch m h) = snd m @ (case fst m of Rejected e \<Rightarrow> snd (h e) | Fulfilled v \<Rightarrow> [] | Pending \<Rightarrow> [])"
  by (cases m) (simp add: catch_def split: outcome.splits prod.splits)

lemma fst_catch:
  "fst (catch m h) = (case fst m of Rejected e \<Rightarrow> fst (h e) | Fulfilled v \<Rightarrow> Fulfilled v | Pending \<Rightarrow> Pending)"
  by (cases m) (simp add: catch_def split: outcome.splits prod.splits)

lemma responses_differ [simp]: "error_response \<noteq> ok_response" "ok_response \<noteq> error_response"
  by (simp_all add: error_response_def ok_response_def)


subsection \<open>Evaluation\<close>

text \<open>The definitions that a run on concrete collaborators unfolds.\<close>

lemmas run_defs = POST_def try_block_def on_error_def notify_def ingress_def pipeline_def
  getTelegramFilePath_def downloadTelegramFile_def transcribeAudio_def getTutorResponse_def
  generateSpeech_def sendVoiceToTelegram_def sendMessageToTelegram_def
  ret_def throw_def settle_def perform_def toString_def blank_def Let_def
  webhook_def voice_update_def answer_def

lemma trim_Nil_iff: "trim s = [] \<longleftrightarrow> (\<forall>c \<in> set s. is_ws c)"
proof
  assume "trim s = []"
  then have "dropWhile is_ws (rev (dropWhile is_ws s)) = []" by (simp add: trim_def)
  then have "\<forall>c \<in> set (dropWhile is_ws s). is_ws c" by (simp add: dropWhile_eq_Nil_conv)
  then have "dropWhile is_ws s = []"
    by (metis hd_dropWhile list.set_sel(1))
  then show "\<forall>c \<in> set s. is_ws c" by (simp add: dropWhile_eq_Nil_conv)
next
  assume "\<forall>c \<in> set s. is_ws c"
  then have "dropWhile is_ws s = []" by (simp add: dropWhile_eq_Nil_conv)
  then show "trim s = []" by (simp only: trim_def rev.simps dropWhile.simps)
qed

lemma blank_string: "blank (JStr s) = Inr (\<forall>c \<in> set s. is_ws c)"
  by (cases s) (simp_all add: blank_def trim_Nil_iff)

lemma hello_not_blank [simp]: "trim (lit ''hello'') \<noteq> []"
  by (simp add: trim_Nil_iff lit_def is_ws_def)

lemma replies_not_empty [simp]: "reply_hi \<noteq> []" "fallback_reply \<noteq> []"
  by (simp_all add: reply_hi_def fallback_reply_def)

subsection \<open>Messages sent\<close>

lemma sends_simps [simp]:
  "sends [] = []"
  "sends (t @ u) = sends t @ sends u"
  "sends ((c, s) # t) = (if is_voice c \<or> is_text c then (c, s) # sends t else sends t)"
  by (simp_all add: sends_def)

lemma delivered_simps [simp]:
  "delivered [] = []"
  "delivered (t @ u) = delivered t @ delivered u"
  "delivered ((c, s) # t) = (if s = Accepted then (c, s) # delivered t else delivered t)"
  by (simp_all add: delivered_def)

lemma voice_calls_simps [simp]:
  "voice_calls [] = []"
  "voice_calls (t @ u) = voice_calls t @ voice_calls u"
  "voice_calls ((c, s) # t) = (if is_voice c then (c, s) # voice_calls t else voice_calls t)"
  by (simp_all add: voice_calls_def)

lemma text_calls_simps [simp]:
  "text_calls [] = []"
  "text_calls (t @ u) = text_calls t @ text_calls u"
  "text_calls ((c, s) # t) = (if is_text c then (c, s) # text_calls t else text_calls t)"
  by (simp_all add: text_calls_def)

lemma voice_calls_sends: "voice_calls (sends t) = voice_calls t"
  by (induction t) auto

lemma text_calls_sends: "text_calls (sends t) = text_calls t"
  by (induction t) auto

lemma sends_stage [simp]:
  "sends (snd (getTelegramFilePath env fileId)) = []"
  "sends (snd (downloadTelegramFile env filePath)) = []"
  "sends (snd (transcribeAudio env audio)) = []"
  "sends (snd (getTutorResponse env msg)) = []"
  "sends (snd (generateSpeech env text)) = []"
  "sends (snd (eval x)) = []"
  "sends (snd (settle r)) = []"
  "sends (snd (ingress body)) = []"
  by (simp_all add: getTelegramFilePath_def downloadTelegramFile_def transcribeAudio_def
      getTutorResponse_def generateSpeech_def snd_await fst_await perform_def settle_def eval_def
      Let_def split: outcome.splits sum.splits)

lemma single_send_ret [simp]: "single_send (ret v)"
  and single_send_throw [simp]: "single_send (throw e)"
  by (simp_all add: single_send_def)

lemma single_send_await:
  assumes "sends (snd m) = []" and "\<And>v. single_send (f v)"
  shows "single_send (await m f)"
proof (cases "fst m")
  case (Fulfilled v)
  with assms(1) assms(2) [of v] show ?thesis
    by (simp add: single_send_def snd_await fst_await)
next
  case (Rejected e)
  with assms(1) show ?thesis by (simp add: single_send_def snd_await fst_await)
next
  case Pending
  with assms(1) show ?thesis by (simp add: single_send_def snd_await fst_await)
qed

lemma single_send_voice: "single_send (await (sendVoiceToTelegram env c a) (\<lambda>_. ret r))"
  by (cases "toString c"; cases "fetch_sendVoice env (projr (toString c)) a")
     (auto simp add: single_send_def sendVoiceToTelegram_def settle_def Let_def fst_await snd_await
       split: outcome.splits)

lemma single_send_text: "single_send (await (sendMessageToTelegram env c t) (\<lambda>_. ret r))"
  by (cases "fetch_sendMessage env c t")
     (simp_all add: single_send_def sendMessage_result)

lemma single_send_pipeline: "single_send (pipeline env chatId fileId)"
  unfolding pipeline_def
  by (intro single_send_await sends_stage single_send_voice)
     (simp add: single_send_text single_send_await single_send_voice)

lemma single_send_try_block: "single_send (try_block env req)"
  unfolding try_block_def
  by (intro single_send_await sends_stage)
     (simp add: single_send_pipeline split: option.splits)


lemma on_error_trace:
  "snd (on_error env req) = [] \<or>
   (\<exists>c st. snd (on_error env req) = [(SendMessage c apology_text, st)])"
proof (cases "request_json req")
  case (Fulfilled body)
  then show ?thesis by (simp add: on_error_result [OF Fulfilled] Let_def)
next
  case (Rejected e)
  then show ?thesis by (simp add: on_error_unparsed)
next
  case Pending
  then show ?thesis
    by (cases "clone_readable req") (simp_all add: on_error_def notify_def ret_def)
qed

lemma short_list: "length xs \<le> 1 \<Longrightarrow> xs = [] \<or> (\<exists>x. xs = [x])"
  by (cases xs) auto

subsection \<open>Stage results\<close>

lemma downstream_calls_simps [simp]:
  "downstream_calls [] = []"
  "downstream_calls (t @ u) = downstream_calls t @ downstream_calls u"
  "downstream_calls ((c, s) # t) = (if downstream c then (c, s) # downstream_calls t else downstream_calls t)"
  by (simp_all add: downstream_calls_def)

lemma upstream_stage:
  "downstream_calls (snd (getTelegramFilePath env fileId)) = []"
  "downstream_calls (snd (downloadTelegramFile env filePath)) = []"
  "downstream_calls (snd (transcribeAudio env audio)) = []"
  by (simp_all add: getTelegramFilePath_def downloadTelegramFile_def transcribeAudio_def
      snd_await fst_await perform_def settle_def eval_def
      Let_def split: outcome.splits sum.splits)

lemma download_renders:
  assumes "downloadTelegramFile env filePath = (Fulfilled audio, t)"
  shows "\<exists>path. to_str filePath = Inr path"
  using assms by (cases "to_str filePath") (simp_all add: downloadTelegramFile_def throw_def)

lemma drain_end: "drain acc (map Data chunks @ End # rest) = Fulfilled (concat (acc @ chunks))"
  by (induction chunks arbitrary: acc) simp_all

lemma drain_error: "drain acc (map Data chunks @ StreamError e # rest) = Rejected e"
  by (induction chunks arbitrary: acc) simp_all

lemma generateSpeech_end:
  assumes "setMetadata env = Fulfilled ()" and "toStream env text = map Data chunks @ End # rest"
  shows "generateSpeech env text
     = (Fulfilled (concat chunks), [(SetMetadata, Accepted), (ToStream text, Accepted)])"
  by (simp add: generateSpeech_def assms drain_end perform_def)

lemma generateSpeech_error:
  assumes "setMetadata env = Fulfilled ()"
    and "toStream env text = map Data chunks @ StreamError e # rest"
  shows "generateSpeech env text
     = (Rejected e, [(SetMetadata, Accepted), (ToStream text, Faulted)])"
  by (simp add: generateSpeech_def assms drain_error perform_def)

lemma getTutorResponse_truthy:
  assumes "fst (getTutorResponse env msg) = Fulfilled reply"
  shows "truthy reply"
  using assms
  by (cases "completions_create env msg")
     (auto simp add: getTutorResponse_def Let_def await_eval fallback_reply_def
       split: sum.splits if_splits)

lemma spoken_simps [simp]:
  "spoken [] = {}"
  "spoken (t @ u) = spoken t \<union> spoken u"
  "spoken ((ToStream v, st) # t) = insert v (spoken t)"
  "spoken ((GetFile a, st) # t) = spoken t"
  "spoken ((Download a, st) # t) = spoken t"
  "spoken ((Transcribe b, st) # t) = spoken t"
  "spoken ((Generate v, st) # t) = spoken t"
  "spoken ((SetMetadata, st) # t) = spoken t"
  "spoken ((SendVoice a b, st) # t) = spoken t"
  "spoken ((SendMessage v a, st) # t) = spoken t"
  by (auto simp add: spoken_def)

lemma spoken_stage [simp]:
  "spoken (snd (getTelegramFilePath env fileId)) = {}"
  "spoken (snd (downloadTelegramFile env filePath)) = {}"
  "spoken (snd (transcribeAudio env audio)) = {}"
  "spoken (snd (getTutorResponse env msg)) = {}"
  "spoken (snd (sendVoiceToTelegram env c a)) = {}"
  "spoken (snd (sendMessageToTelegram env c x)) = {}"
  "spoken (snd (eval y)) = {}"
  "spoken (snd (settle r)) = {}"
  "spoken (snd (ingress body)) = {}"
  by (simp_all add: getTelegramFilePath_def downloadTelegramFile_def transcribeAudio_def
      getTutorResponse_def sendVoiceToTelegram_def sendMessageToTelegram_def
      snd_await fst_await perform_def settle_def eval_def
      Let_def split: outcome.splits sum.splits)

lemma spoken_generateSpeech: "spoken (snd (generateSpeech env text)) \<subseteq> {text}"
  by (simp add: generateSpeech_def snd_await fst_await perform_def Let_def split: outcome.splits)

lemma spoken_await:
  assumes "spoken (snd m) \<subseteq> S" and "\<And>v. fst m = Fulfilled v \<Longrightarrow> spoken (snd (f v)) \<subseteq> S"
  shows "spoken (snd (await m f)) \<subseteq> S"
  using assms by (cases "fst m") (auto simp add: snd_await)

lemma spoken_pipeline: "spoken (snd (pipeline env chatId fileId)) \<subseteq> Collect truthy"
  unfolding pipeline_def
  apply (intro spoken_await)
       apply simp_all
  apply (intro conjI impI spoken_await)
      apply simp_all
  apply (frule getTutorResponse_truthy)
  apply (rule subset_trans [OF spoken_generateSpeech])
  apply simp
  done

lemma spoken_POST: "spoken (snd (POST env req)) \<subseteq> Collect truthy"
proof -
  have on_error: "spoken (snd (on_error env req)) = {}"
    using on_error_trace [of env req] by auto
  have "spoken (snd (try_block env req)) \<subseteq> Collect truthy"
    unfolding try_block_def
    by (intro spoken_await) (simp_all add: spoken_pipeline split: option.splits)
  then show ?thesis
    by (cases "fst (try_block env req)") (simp_all add: POST_def snd_catch on_error)
qed

lemma stage_trace:
  assumes "m = (r, t)" and "downstream_calls (snd m) = []"
  shows "downstream_calls t = []"
  using assms by simp

lemma sends_of_stage:
  assumes "m = (r, t)" and "sends (snd m) = []"
  shows "text_calls t = [] \<and> voice_calls t = []"
proof -
  from assms have "sends t = []" by simp
  then have "text_calls (sends t) = []" "voice_calls (sends t) = []" by simp_all
  then show ?thesis by (simp add: text_calls_sends voice_calls_sends)
qed

lemma not_blank: "\<exists>c \<in> set s. \<not> is_ws c \<Longrightarrow> blank (JStr s) = Inr False"
  by (simp add: blank_string)

subsection \<open>The catch block and the answer\<close>

lemma returns_ok_await: "(\<And>v. returns_ok (f v)) \<Longrightarrow> returns_ok (await m f)"
  by (cases "fst m") (simp_all add: returns_ok_def fst_await)

lemma returns_ok_ret [simp]: "returns_ok (ret ok_response)"
  by (simp add: returns_ok_def)

lemma returns_ok_try_block: "returns_ok (try_block env req)"
  unfolding try_block_def pipeline_def
  by (intro returns_ok_await) (auto intro!: returns_ok_await split: option.splits)

lemma settles_await: "settles m \<Longrightarrow> (\<And>v. settles (f v)) \<Longrightarrow> settles (await m f)"
  by (cases "fst m") (simp_all add: settles_def fst_await)

lemma settles_simps [simp]: "settles (ret v)" "settles (throw e)" "settles (eval x)"
  by (cases x; simp add: settles_def)+

lemma settles_settle [simp]: "settles (settle r) \<longleftrightarrow> r \<noteq> Pending"
  by (simp add: settles_def settle_def)

lemma settles_perform [simp]: "settles (perform c s r) \<longleftrightarrow> r \<noteq> Pending"
  by (simp add: settles_def perform_def)

lemma settles_stages:
  assumes "responsive env"
  shows "settles (getTelegramFilePath env fileId)"
    and "settles (downloadTelegramFile env filePath)"
    and "settles (transcribeAudio env audio)"
    and "settles (getTutorResponse env msg)"
    and "settles (generateSpeech env spoken_text)"
    and "settles (sendVoiceToTelegram env chatId speech)"
    and "settles (sendMessageToTelegram env chatId notice)"
  using assms
  by (auto simp add: responsive_def settles_def getTelegramFilePath_def downloadTelegramFile_def
      transcribeAudio_def getTutorResponse_def generateSpeech_def sendVoiceToTelegram_def
      sendMessageToTelegram_def fst_await perform_def settle_def eval_def Let_def
      split: outcome.splits sum.splits)

lemma settles_catch: "settles m \<Longrightarrow> (\<And>e. settles (h e)) \<Longrightarrow> settles (catch m h)"
  by (cases "fst m") (simp_all add: settles_def fst_catch)

lemma settles_ingress: "settles (ingress body)"
  unfolding ingress_def
  by (intro settles_await) (auto intro!: settles_await)

lemma settles_pipeline: "responsive env \<Longrightarrow> settles (pipeline env chatId fileId)"
  unfolding pipeline_def
  by (intro settles_await) (auto intro!: settles_await simp add: settles_stages)

lemma settles_try_block:
  assumes "responsive env" and "request_json req \<noteq> Pending"
  shows "settles (try_block env req)"
  unfolding try_block_def
  by (intro settles_await)
     (auto simp add: assms settles_ingress settles_pipeline split: option.splits)

lemma settles_on_error:
  assumes "responsive env" and "request_json req \<noteq> Pending"
  shows "settles (on_error env req)"
  unfolding on_error_def notify_def
  by (intro settles_await settles_catch)
     (auto intro!: settles_await simp add: assms settles_stages)

lemma on_error_outcome:
  "fst (on_error env req) = Fulfilled error_response \<or> fst (on_error env req) = Pending"
proof (cases "request_json req")
  case (Fulfilled body)
  then show ?thesis by (simp add: on_error_result [OF Fulfilled] Let_def)
next
  case (Rejected e)
  then show ?thesis by (simp add: on_error_unparsed)
next
  case Pending
  then show ?thesis
    by (cases "clone_readable req") (simp_all add: on_error_def notify_def ret_def)
qed

lemma replying_calls_simps [simp]:
  "replying_calls [] = []"
  "replying_calls (t @ u) = replying_calls t @ replying_calls u"
  "replying_calls ((c, s) # t)
     = (if downstream c \<and> \<not> is_text c then (c, s) # replying_calls t else replying_calls t)"
  by (simp_all add: replying_calls_def)

lemma replying_downstream: "downstream_calls t = [] \<Longrightarrow> replying_calls t = []"
  by (induction t) (auto split: if_splits)

lemma replying_on_error: "replying_calls (snd (on_error env req)) = []"
  using on_error_trace [of env req] by auto

subsection \<open>Whole runs\<close>

lemma round_trip_run:
  assumes "request_json req = Fulfilled body"
    and "ingress body = ret (Some (chatId, fileId))"
    and "getTelegramFilePath env fileId = (Fulfilled filePath, t1)"
    and "downloadTelegramFile env filePath = (Fulfilled audio, t2)"
    and "transcribeAudio env audio = (Fulfilled (JStr transcript), t3)"
    and "\<exists>c \<in> set transcript. \<not> is_ws c"
    and "getTutorResponse env (JStr transcript) = (Fulfilled reply, t4)"
    and "to_str reply = Inr shown"
    and "generateSpeech env reply = (Fulfilled speech, t5)"
    and "toString chatId = Inr chat"
    and "fetch_sendVoice env chat speech = Fulfilled r"
    and "ok r"
  shows "POST env req
           = (Fulfilled ok_response, t1 @ t2 @ t3 @ t4 @ t5 @ [(SendVoice chat speech, Accepted)])"
    and "text_calls (snd (POST env req)) = []"
proof -
  from download_renders [OF assms(4)] obtain path where p: "to_str filePath = Inr path" ..
  have voice: "sendVoiceToTelegram env chatId speech
      = (Fulfilled (), [(SendVoice chat speech, Accepted)])"
    by (simp add: sendVoiceToTelegram_def assms(10,11,12) ret_def)
  have "pipeline env chatId fileId
      = (Fulfilled ok_response, t1 @ t2 @ t3 @ t4 @ t5 @ [(SendVoice chat speech, Accepted)])"
    by (simp add: pipeline_def assms(3,4,5,7,8,9) p not_blank [OF assms(6)] voice ret_def)
  then show run: "POST env req
      = (Fulfilled ok_response, t1 @ t2 @ t3 @ t4 @ t5 @ [(SendVoice chat speech, Accepted)])"
    by (simp add: POST_pipeline [OF assms(1,2)])
  have "text_calls t1 = []" "text_calls t2 = []" "text_calls t3 = []" "text_calls t4 = []"
    "text_calls t5 = []"
    using sends_of_stage [OF assms(3)] sends_of_stage [OF assms(4)] sends_of_stage [OF assms(5)]
      sends_of_stage [OF assms(7)] sends_of_stage [OF assms(9)]
    by simp_all
  with run show "text_calls (snd (POST env req)) = []" by simp
qed

lemma POST_unreadable:
  assumes "\<not> clone_readable req"
  shows "fst (POST env req)
           = (case fst (try_block env req) of
                Fulfilled v \<Rightarrow> Fulfilled v
              | Rejected e \<Rightarrow> Fulfilled error_response
              | Pending \<Rightarrow> Pending)"
    and "snd (POST env req) = snd (try_block env req)"
  by (cases "fst (try_block env req)";
      simp add: POST_def fst_catch snd_catch unreadable_request_no_apology [OF assms])+

lemma notify_unreadable:
  assumes "\<not> clone_readable req"
  shows "notify env req = throw TypeError"
  using assms by (simp add: notify_def)

lemma synthesis_fault_run:
  assumes "request_json req = Fulfilled body"
    and "ingress body = ret (Some (chatId, fileId))"
    and "getTelegramFilePath env fileId = (Fulfilled filePath, t1)"
    and "downloadTelegramFile env filePath = (Fulfilled audio, t2)"
    and "transcribeAudio env audio = (Fulfilled (JStr transcript), t3)"
    and "\<exists>c \<in> set transcript. \<not> is_ws c"
    and "getTutorResponse env (JStr transcript) = (Fulfilled reply, t4)"
    and "to_str reply = Inr shown"
    and "generateSpeech env reply = (Rejected e, t5)"
    and "\<not> clone_readable req"
  shows "POST env req = (Fulfilled error_response, t1 @ t2 @ t3 @ t4 @ t5)"
    and "voice_calls (snd (POST env req)) = []"
    and "text_calls (snd (POST env req)) = []"
proof -
  from download_renders [OF assms(4)] obtain path where p: "to_str filePath = Inr path" ..
  have "pipeline env chatId fileId = (Rejected e, t1 @ t2 @ t3 @ t4 @ t5)"
    by (simp add: pipeline_def assms(3,4,5,7,8,9) p not_blank [OF assms(6)])
  then show run: "POST env req = (Fulfilled error_response, t1 @ t2 @ t3 @ t4 @ t5)"
    by (simp add: POST_pipeline [OF assms(1,2)] unreadable_request_no_apology [OF assms(10)])
  have quiet: "text_calls t1 = [] \<and> voice_calls t1 = []" "text_calls t2 = [] \<and> voice_calls t2 = []"
    "text_calls t3 = [] \<and> voice_calls t3 = []" "text_calls t4 = [] \<and> voice_calls t4 = []"
    "text_calls t5 = [] \<and> voice_calls t5 = []"
    using sends_of_stage [OF assms(3)] sends_of_stage [OF assms(4)] sends_of_stage [OF assms(5)]
      sends_of_stage [OF assms(7)] sends_of_stage [OF assms(9)]
    by simp_all
  from run quiet show "voice_calls (snd (POST env req)) = []" by simp
  from run quiet show "text_calls (snd (POST env req)) = []" by simp
qed

section \<open>The claims\<close>

text \<open>
  C2. An update that is a JSON object without a \<^verbatim>\<open>message\<close> field, or whose message has no
  \<^verbatim>\<open>voice\<close> field, makes the handler return \<^verbatim>\<open>{ok: true}\<close> with status 200 and an empty
  trace: no metadata request, download, transcription, generation, synthesis or Telegram
  send is made.
\<close>

theorem non_voice_update_skipped:
  assumes "request_json req = Fulfilled (JObj kvs)"
    and "opt_prop (JObj kvs) (lit ''message'') = JUndefined \<or>
         opt_prop (opt_prop (JObj kvs) (lit ''message'')) (lit ''voice'') = JUndefined"
  shows "POST env req = (Fulfilled ok_response, [])"
proof -
  from assms(2) have "\<not> is_voice_message (JObj kvs)"
    by (auto simp add: is_voice_message_def)
  then have "ingress (JObj kvs) = ret None"
    by (simp add: ingress_skip)
  with assms(1) show ?thesis by (rule POST_skip)
qed

theorem non_voice_update_skipped_witness:
  "request_json (webhook (JObj [(lit ''message'', JObj [(lit ''text'', JStr (lit ''hi''))])]))
     = Fulfilled (JObj [(lit ''message'', JObj [(lit ''text'', JStr (lit ''hi''))])]) \<and>
   opt_prop (opt_prop (JObj [(lit ''message'', JObj [(lit ''text'', JStr (lit ''hi''))])])
     (lit ''message'')) (lit ''voice'') = JUndefined \<and>
   POST round_trip (webhook (JObj [(lit ''message'', JObj [(lit ''text'', JStr (lit ''hi''))])]))
     = (Fulfilled ok_response, [])"
  using non_voice_update_skipped
    [of "webhook (JObj [(lit ''message'', JObj [(lit ''text'', JStr (lit ''hi''))])])"
        "[(lit ''message'', JObj [(lit ''text'', JStr (lit ''hi''))])]" round_trip]
  by (simp add: webhook_def)

text \<open>
  C10. For an update whose message has a (truthy) \<^verbatim>\<open>voice\<close> field and no \<^verbatim>\<open>chat\<close> field,
  the body of the \<^verbatim>\<open>try\<close> throws a TypeError at \<^verbatim>\<open>message.chat.id\<close> before any
  collaborator is called, the catch block finds no chat identity to notify, and the answer
  is status 500 with \<^verbatim>\<open>{ok: false, error: "Internal server error"}\<close>; the trace is empty.
\<close>

theorem voice_without_chat_fails:
  assumes "request_json req = Fulfilled (JObj kvs)"
    and "truthy (opt_prop (opt_prop (JObj kvs) (lit ''message'')) (lit ''voice''))"
    and "opt_prop (opt_prop (JObj kvs) (lit ''message'')) (lit ''chat'') = JUndefined"
  shows "try_block env req = (Rejected TypeError, []) \<and>
         POST env req = (Fulfilled error_response, [])"
proof -
  from assms(2) have "truthy (opt_prop (JObj kvs) (lit ''message''))"
    by (rule truthy_opt_prop_obj)
  with assms(2) have v: "is_voice_message (JObj kvs)"
    by (simp add: is_voice_message_def)
  then have i: "ingress (JObj kvs) = throw TypeError"
    using assms(3) by (rule ingress_no_chat)
  have "try_block env req = (Rejected TypeError, [])"
    by (simp add: try_block_def assms(1) i) (simp add: throw_def)
  moreover have "POST env req = (Fulfilled error_response, [])"
    by (simp add: POST_ingress_throws [OF assms(1) i] on_error_result [OF assms(1)] assms(3)
        del: opt_prop_simps(7))
  ultimately show ?thesis by simp
qed

theorem voice_without_chat_fails_witness:
  "truthy (opt_prop (opt_prop (JObj [(lit ''message'', JObj [(lit ''voice'', JObj [(lit ''file_id'', JStr (lit ''abc''))])])])
      (lit ''message'')) (lit ''voice'')) \<and>
   opt_prop (opt_prop (JObj [(lit ''message'', JObj [(lit ''voice'', JObj [(lit ''file_id'', JStr (lit ''abc''))])])])
      (lit ''message'')) (lit ''chat'') = JUndefined \<and>
   try_block round_trip (webhook (JObj [(lit ''message'', JObj [(lit ''voice'', JObj [(lit ''file_id'', JStr (lit ''abc''))])])]))
     = (Rejected TypeError, []) \<and>
   POST round_trip (webhook (JObj [(lit ''message'', JObj [(lit ''voice'', JObj [(lit ''file_id'', JStr (lit ''abc''))])])]))
     = (Fulfilled error_response, [])"
  using voice_without_chat_fails
    [of "webhook (JObj [(lit ''message'', JObj [(lit ''voice'', JObj [(lit ''file_id'', JStr (lit ''abc''))])])])"
        "[(lit ''message'', JObj [(lit ''voice'', JObj [(lit ''file_id'', JStr (lit ''abc''))])])]" round_trip]
  by (simp add: webhook_def)




text \<open>
  C3. On the request the handler gets, whose body cannot be read a second time, one
  invocation makes at most one call that sends a message: at most one voice call, at most
  one text call, and never a voice call and a text call together.
\<close>

theorem single_reply:
  assumes "\<not> clone_readable req"
  shows "length (sends (snd (POST env req))) \<le> 1 \<and>
         length (voice_calls (snd (POST env req))) \<le> 1 \<and>
         length (text_calls (snd (POST env req))) \<le> 1 \<and>
         (voice_calls (snd (POST env req)) = [] \<or> text_calls (snd (POST env req)) = [])"
proof -
  let ?t = "snd (POST env req)"
  have "length (sends ?t) \<le> 1"
    using single_send_try_block [of env req]
    by (simp add: single_send_def POST_unreadable(2) [OF assms])
  from short_list [OF this] consider "sends ?t = []" | c s where "sends ?t = [(c, s)]"
    by auto
  then show ?thesis
  proof cases
    case 1
    then have "voice_calls (sends ?t) = []" "text_calls (sends ?t) = []" by simp_all
    then have "voice_calls ?t = []" "text_calls ?t = []"
      by (simp_all only: voice_calls_sends text_calls_sends)
    with 1 show ?thesis by simp
  next
    case 2
    then have "voice_calls (sends ?t) = (if is_voice c then [(c, s)] else [])"
      "text_calls (sends ?t) = (if is_text c then [(c, s)] else [])" by simp_all
    then have "voice_calls ?t = (if is_voice c then [(c, s)] else [])"
      "text_calls ?t = (if is_text c then [(c, s)] else [])"
      by (simp_all only: voice_calls_sends text_calls_sends)
    with 2 show ?thesis by (cases c) simp_all
  qed
qed

theorem single_reply_witness:
  "\<not> clone_readable (webhook (voice_update (JNum (lit ''42'')) (JStr (lit ''abc'')))) \<and>
   sends (snd (POST unreachable (webhook (voice_update (JNum (lit ''42'')) (JStr (lit ''abc''))))))
     = [(SendMessage (JNum (lit ''42'')) notice_text, Faulted)] \<and>
   length (sends (snd (POST unreachable (webhook (voice_update (JNum (lit ''42'')) (JStr (lit ''abc''))))))) \<le> 1 \<and>
   text_calls (snd (POST unreachable (webhook (voice_update (JNum (lit ''42'')) (JStr (lit ''abc''))))))
     = [(SendMessage (JNum (lit ''42'')) notice_text, Faulted)] \<and>
   voice_calls (snd (POST unreachable (webhook (voice_update (JNum (lit ''42'')) (JStr (lit ''abc'')))))) = []"
  using single_reply [of "webhook (voice_update (JNum (lit ''42'')) (JStr (lit ''abc'')))" unreachable]
  by (simp add: run_defs unreachable_def silent_audio_def round_trip_def is_ws_def trim_Nil_iff)

text \<open>
  C4, as amended. For a voice update that reaches the transcriber, if the transcript is a
  string that is empty or holds white space only, the handler makes no generation,
  synthesis or voice call. If moreover the text request that carries the fixed notice is
  answered, that request is the only text call and the handler returns \<^verbatim>\<open>{ok: true}\<close>.
\<close>

theorem blank_transcript_notice:
  assumes "request_json req = Fulfilled body"
    and "ingress body = ret (Some (chatId, fileId))"
    and "getTelegramFilePath env fileId = (Fulfilled filePath, t1)"
    and "downloadTelegramFile env filePath = (Fulfilled audio, t2)"
    and "transcribeAudio env audio = (Fulfilled (JStr s), t3)"
    and "\<forall>c \<in> set s. is_ws c"
  shows "replying_calls (snd (POST env req)) = [] \<and>
         (\<forall>r. fetch_sendMessage env chatId notice_text = Fulfilled r \<longrightarrow>
            POST env req
              = (Fulfilled ok_response,
                 t1 @ t2 @ t3 @
                 [(SendMessage chatId notice_text, if ok r then Accepted else Refused)]) \<and>
            downstream_calls (snd (POST env req))
              = [(SendMessage chatId notice_text, if ok r then Accepted else Refused)])"
proof -
  from download_renders [OF assms(4)] obtain path where p: "to_str filePath = Inr path" ..
  have up: "downstream_calls t1 = []" "downstream_calls t2 = []" "downstream_calls t3 = []"
    using upstream_stage(1) [of env fileId] upstream_stage(2) [of env filePath]
      upstream_stage(3) [of env audio]
    by (simp_all add: assms(3,4,5))
  have pipe: "pipeline env chatId fileId
      = (case fetch_sendMessage env chatId notice_text of
           Fulfilled r \<Rightarrow> Fulfilled ok_response | Rejected e \<Rightarrow> Rejected e | Pending \<Rightarrow> Pending,
         t1 @ t2 @ t3 @
         [(SendMessage chatId notice_text, fetch_status (fetch_sendMessage env chatId notice_text))])"
    using assms(6)
    by (cases "fetch_sendMessage env chatId notice_text")
       (simp_all add: pipeline_def assms(3,4,5) p blank_string sendMessage_result ret_def)
  have "replying_calls (snd (POST env req)) = []"
    by (cases "fetch_sendMessage env chatId notice_text")
       (simp_all add: POST_pipeline [OF assms(1,2)] pipe replying_on_error replying_downstream up)
  moreover have "POST env req
        = (Fulfilled ok_response,
           t1 @ t2 @ t3 @ [(SendMessage chatId notice_text, if ok r then Accepted else Refused)]) \<and>
      downstream_calls (snd (POST env req))
        = [(SendMessage chatId notice_text, if ok r then Accepted else Refused)]"
    if "fetch_sendMessage env chatId notice_text = Fulfilled r" for r
    using that by (simp add: POST_pipeline [OF assms(1,2)] pipe sendMessage_result up)
  ultimately show ?thesis by blast
qed

theorem blank_transcript_notice_witness:
  "ingress (voice_update (JNum (lit ''42'')) (JStr (lit ''abc''))) = ret (Some (JNum (lit ''42''), JStr (lit ''abc''))) \<and>
   transcribeAudio silent_audio [79, 103, 103, 83, 0, 2, 0, 0, 0]
     = (Fulfilled (JStr [0x20, 0x3000]), [(Transcribe [79, 103, 103, 83, 0, 2, 0, 0, 0], Accepted)]) \<and>
   is_ws 0x20 \<and> is_ws 0x3000 \<and>
   replying_calls (snd (POST silent_audio (webhook (voice_update (JNum (lit ''42'')) (JStr (lit ''abc'')))))) = [] \<and>
   POST silent_audio (webhook (voice_update (JNum (lit ''42'')) (JStr (lit ''abc''))))
     = (Fulfilled ok_response,
        [(GetFile (lit ''abc''), Accepted), (Download (lit ''voice/abc.oga''), Accepted),
         (Transcribe [79, 103, 103, 83, 0, 2, 0, 0, 0], Accepted),
         (SendMessage (JNum (lit ''42'')) notice_text, Accepted)]) \<and>
   downstream_calls (snd (POST silent_audio (webhook (voice_update (JNum (lit ''42'')) (JStr (lit ''abc''))))))
     = [(SendMessage (JNum (lit ''42'')) notice_text, Accepted)]"
  using blank_transcript_notice
    [of "webhook (voice_update (JNum (lit ''42'')) (JStr (lit ''abc'')))" "voice_update (JNum (lit ''42'')) (JStr (lit ''abc''))"
        "JNum (lit ''42'')" "JStr (lit ''abc'')" silent_audio "JStr (lit ''voice/abc.oga'')"
        "[(GetFile (lit ''abc''), Accepted)]" "[79, 103, 103, 83, 0, 2, 0, 0, 0]"
        "[(Download (lit ''voice/abc.oga''), Accepted)]" "[0x20, 0x3000]"
        "[(Transcribe [79, 103, 103, 83, 0, 2, 0, 0, 0], Accepted)]"]
  by (simp add: run_defs silent_audio_def round_trip_def is_ws_def)

text \<open>
  C4 as stated fails: the transcript is blank and the text request that carries the notice
  faults; the notice does not reach the chat and the answer is 500.
\<close>

theorem notice_request_faults:
  "transcribeAudio unreachable [79, 103, 103, 83, 0, 2, 0, 0, 0]
     = (Fulfilled (JStr [0x20, 0x3000]), [(Transcribe [79, 103, 103, 83, 0, 2, 0, 0, 0], Accepted)]) \<and>
   POST unreachable (webhook (voice_update (JNum (lit ''42'')) (JStr (lit ''abc''))))
     = (Fulfilled error_response,
        [(GetFile (lit ''abc''), Accepted), (Download (lit ''voice/abc.oga''), Accepted),
         (Transcribe [79, 103, 103, 83, 0, 2, 0, 0, 0], Accepted),
         (SendMessage (JNum (lit ''42'')) notice_text, Faulted)])"
  by (simp add: run_defs unreachable_def silent_audio_def round_trip_def is_ws_def trim_Nil_iff)

text \<open>
  C5. If the generation service answers with no completion, or with a first completion
  that has no content, \<open>getTutorResponse\<close> returns the fixed apology string, which is not
  empty. Whatever \<open>getTutorResponse\<close> returns is truthy, and so is every text the handler
  passes to the synthesis: never the empty string.
\<close>

theorem fallback_for_no_content:
  assumes "completions_create env userMessage = Fulfilled completion"
    and "no_content completion"
  shows "getTutorResponse env userMessage
           = (Fulfilled (JStr fallback_reply), [(Generate userMessage, Accepted)]) \<and>
         fallback_reply \<noteq> [] \<and>
         (\<forall>msg reply. fst (getTutorResponse env msg) = Fulfilled reply \<longrightarrow> truthy reply) \<and>
         (\<forall>req text st. (ToStream text, st) \<in> set (snd (POST env req)) \<longrightarrow> truthy text)"
proof -
  from assms(2) obtain choices choice
    where c: "property completion (lit ''choices'') = Inr choices" "index0 choices = Inr choice"
      "\<not> truthy (opt_prop (opt_prop choice (lit ''message'')) (lit ''content''))"
    by (auto simp add: no_content_def split: sum.splits)
  then have "getTutorResponse env userMessage
      = (Fulfilled (JStr fallback_reply), [(Generate userMessage, Accepted)])"
    by (simp add: getTutorResponse_def assms(1) ret_def)
  moreover have "fallback_reply \<noteq> []" by (simp add: fallback_reply_def)
  moreover have "truthy spoken_text"
    if "(ToStream spoken_text, st) \<in> set (snd (POST env req))" for req spoken_text st
    using that spoken_POST [of env req] by (auto simp add: spoken_def)
  ultimately show ?thesis using getTutorResponse_truthy by blast
qed

theorem fallback_for_no_content_witness:
  "completions_create no_completion (JStr (lit ''hello'')) = Fulfilled (JObj [(lit ''choices'', JArr [])]) \<and>
   no_content (JObj [(lit ''choices'', JArr [])]) \<and>
   getTutorResponse no_completion (JStr (lit ''hello''))
     = (Fulfilled (JStr fallback_reply), [(Generate (JStr (lit ''hello'')), Accepted)]) \<and>
   fallback_reply \<noteq> []"
  using fallback_for_no_content [of no_completion "JStr (lit ''hello'')" "JObj [(lit ''choices'', JArr [])]"]
  by (simp add: no_completion_def round_trip_def no_content_def)

text \<open>
  C6. For every reply text, when the synthesis stream emits chunks and then ends,
  \<open>generateSpeech\<close> resolves with the concatenation of all chunks in the order of arrival;
  and in a run where every stage succeeds that buffer is the payload of the one voice call,
  with no text call. The witness is the round trip of the specification: the chunks 01 02
  and 03 are delivered as 01 02 03.
\<close>

theorem voice_round_trip:
  assumes "setMetadata env = Fulfilled ()"
    and "toStream env reply = map Data chunks @ End # rest"
  shows "generateSpeech env reply
           = (Fulfilled (concat chunks), [(SetMetadata, Accepted), (ToStream reply, Accepted)]) \<and>
         (\<forall>req body chatId fileId filePath t1 audio t2 transcript t3 t4 shown chat r.
            request_json req = Fulfilled body \<and>
            ingress body = ret (Some (chatId, fileId)) \<and>
            getTelegramFilePath env fileId = (Fulfilled filePath, t1) \<and>
            downloadTelegramFile env filePath = (Fulfilled audio, t2) \<and>
            transcribeAudio env audio = (Fulfilled (JStr transcript), t3) \<and>
            (\<exists>c \<in> set transcript. \<not> is_ws c) \<and>
            getTutorResponse env (JStr transcript) = (Fulfilled reply, t4) \<and>
            to_str reply = Inr shown \<and>
            toString chatId = Inr chat \<and>
            fetch_sendVoice env chat (concat chunks) = Fulfilled r \<and> ok r
            \<longrightarrow>
            POST env req
              = (Fulfilled ok_response,
                 t1 @ t2 @ t3 @ t4 @
                 [(SetMetadata, Accepted), (ToStream reply, Accepted),
                  (SendVoice chat (concat chunks), Accepted)]) \<and>
            text_calls (snd (POST env req)) = [])"
proof -
  have speech: "generateSpeech env reply
      = (Fulfilled (concat chunks), [(SetMetadata, Accepted), (ToStream reply, Accepted)])"
    using assms by (rule generateSpeech_end)
  show ?thesis
  proof (intro conjI allI impI, goal_cases)
    case 1
    show ?case by (rule speech)
  next
    case (2 req body chatId fileId filePath t1 audio t2 transcript t3 t4 shown chat r)
    then show ?case
      using round_trip_run(1) [of req body chatId fileId env filePath t1 audio t2 transcript t3
          reply t4 shown "concat chunks" _ chat r] speech
      by simp
  next
    case (3 req body chatId fileId filePath t1 audio t2 transcript t3 t4 shown chat r)
    then show ?case
      using round_trip_run(2) [of req body chatId fileId env filePath t1 audio t2 transcript t3
          reply t4 shown "concat chunks" _ chat r] speech
      by simp
  qed
qed

theorem voice_round_trip_witness:
  "getTelegramFilePath round_trip (JStr (lit ''abc''))
     = (Fulfilled (JStr (lit ''voice/abc.oga'')), [(GetFile (lit ''abc''), Accepted)]) \<and>
   length [79, 103, 103, 83, 0, 2, 0, 0, 0 :: byte] = 9 \<and>
   transcribeAudio round_trip [79, 103, 103, 83, 0, 2, 0, 0, 0]
     = (Fulfilled (JStr (lit ''hello'')), [(Transcribe [79, 103, 103, 83, 0, 2, 0, 0, 0], Accepted)]) \<and>
   getTutorResponse round_trip (JStr (lit ''hello''))
     = (Fulfilled (JStr reply_hi), [(Generate (JStr (lit ''hello'')), Accepted)]) \<and>
   toStream round_trip (JStr reply_hi) = [Data [1, 2], Data [3], End] \<and>
   generateSpeech round_trip (JStr reply_hi)
     = (Fulfilled [1, 2, 3], [(SetMetadata, Accepted), (ToStream (JStr reply_hi), Accepted)]) \<and>
   POST round_trip (webhook (voice_update (JNum (lit ''42'')) (JStr (lit ''abc''))))
     = (Fulfilled ok_response,
        [(GetFile (lit ''abc''), Accepted), (Download (lit ''voice/abc.oga''), Accepted),
         (Transcribe [79, 103, 103, 83, 0, 2, 0, 0, 0], Accepted),
         (Generate (JStr (lit ''hello'')), Accepted),
         (SetMetadata, Accepted), (ToStream (JStr reply_hi), Accepted),
         (SendVoice (lit ''42'') [1, 2, 3], Accepted)]) \<and>
   text_calls (snd (POST round_trip (webhook (voice_update (JNum (lit ''42'')) (JStr (lit ''abc'')))))) = []"
proof -
  have m: "setMetadata round_trip = Fulfilled ()"
    by (simp add: round_trip_def)
  have s: "toStream round_trip (JStr reply_hi) = map Data [[1, 2], [3]] @ End # []"
    by (simp add: round_trip_def)
  note rt = voice_round_trip [OF m s]
  have stages:
    "getTelegramFilePath round_trip (JStr (lit ''abc''))
       = (Fulfilled (JStr (lit ''voice/abc.oga'')), [(GetFile (lit ''abc''), Accepted)])"
    "downloadTelegramFile round_trip (JStr (lit ''voice/abc.oga''))
       = (Fulfilled [79, 103, 103, 83, 0, 2, 0, 0, 0], [(Download (lit ''voice/abc.oga''), Accepted)])"
    "transcribeAudio round_trip [79, 103, 103, 83, 0, 2, 0, 0, 0]
       = (Fulfilled (JStr (lit ''hello'')), [(Transcribe [79, 103, 103, 83, 0, 2, 0, 0, 0], Accepted)])"
    "getTutorResponse round_trip (JStr (lit ''hello''))
       = (Fulfilled (JStr reply_hi), [(Generate (JStr (lit ''hello'')), Accepted)])"
    "ingress (voice_update (JNum (lit ''42'')) (JStr (lit ''abc''))) = ret (Some (JNum (lit ''42''), JStr (lit ''abc'')))"
    "fetch_sendVoice round_trip (lit ''42'') [1, 2, 3] = Fulfilled (answer True JNull [])"
    by (simp_all add: run_defs round_trip_def)
  have nb: "\<exists>c \<in> set (lit ''hello''). \<not> is_ws c"
    using hello_not_blank by (simp add: trim_Nil_iff)
  from rt have speech: "generateSpeech round_trip (JStr reply_hi)
      = (Fulfilled [1, 2, 3], [(SetMetadata, Accepted), (ToStream (JStr reply_hi), Accepted)])"
    by simp
  from rt [THEN conjunct2, rule_format,
      of "webhook (voice_update (JNum (lit ''42'')) (JStr (lit ''abc'')))" "voice_update (JNum (lit ''42'')) (JStr (lit ''abc''))"
        "JNum (lit ''42'')" "JStr (lit ''abc'')" "JStr (lit ''voice/abc.oga'')"
        "[(GetFile (lit ''abc''), Accepted)]" "[79, 103, 103, 83, 0, 2, 0, 0, 0]"
        "[(Download (lit ''voice/abc.oga''), Accepted)]" "lit ''hello''"
        "[(Transcribe [79, 103, 103, 83, 0, 2, 0, 0, 0], Accepted)]"
        "[(Generate (JStr (lit ''hello'')), Accepted)]" reply_hi "lit ''42''" "answer True JNull []"]
    stages nb
  have "POST round_trip (webhook (voice_update (JNum (lit ''42'')) (JStr (lit ''abc''))))
     = (Fulfilled ok_response,
        [(GetFile (lit ''abc''), Accepted), (Download (lit ''voice/abc.oga''), Accepted),
         (Transcribe [79, 103, 103, 83, 0, 2, 0, 0, 0], Accepted),
         (Generate (JStr (lit ''hello'')), Accepted),
         (SetMetadata, Accepted), (ToStream (JStr reply_hi), Accepted),
         (SendVoice (lit ''42'') [1, 2, 3], Accepted)]) \<and>
   text_calls (snd (POST round_trip (webhook (voice_update (JNum (lit ''42'')) (JStr (lit ''abc'')))))) = []"
    by (simp add: webhook_def toString_def answer_def)
  with stages speech s show ?thesis by simp
qed

text \<open>
  C7. What the handler does when the synthesis stream raises an error before it ends:
  \<open>generateSpeech\<close> rejects with that error, and in a run that reaches the synthesis, on
  a request whose body cannot be read a second time, no voice call is made, the answer is
  500, and no text call is made either: the apology of lines 208 to 211 is not sent.
\<close>

theorem stream_error_unreported:
  assumes "setMetadata env = Fulfilled ()"
    and "toStream env reply = map Data chunks @ StreamError e # rest"
  shows "generateSpeech env reply
           = (Rejected e, [(SetMetadata, Accepted), (ToStream reply, Faulted)]) \<and>
         (\<forall>req body chatId fileId filePath t1 audio t2 transcript t3 t4 shown.
            request_json req = Fulfilled body \<and>
            ingress body = ret (Some (chatId, fileId)) \<and>
            getTelegramFilePath env fileId = (Fulfilled filePath, t1) \<and>
            downloadTelegramFile env filePath = (Fulfilled audio, t2) \<and>
            transcribeAudio env audio = (Fulfilled (JStr transcript), t3) \<and>
            (\<exists>c \<in> set transcript. \<not> is_ws c) \<and>
            getTutorResponse env (JStr transcript) = (Fulfilled reply, t4) \<and>
            to_str reply = Inr shown \<and>
            \<not> clone_readable req
            \<longrightarrow>
            POST env req
              = (Fulfilled error_response,
                 t1 @ t2 @ t3 @ t4 @ [(SetMetadata, Accepted), (ToStream reply, Faulted)]) \<and>
            voice_calls (snd (POST env req)) = [] \<and>
            text_calls (snd (POST env req)) = [])"
proof -
  have speech: "generateSpeech env reply
      = (Rejected e, [(SetMetadata, Accepted), (ToStream reply, Faulted)])"
    using assms by (rule generateSpeech_error)
  show ?thesis
  proof (intro conjI allI impI, goal_cases)
    case 1
    show ?case by (rule speech)
  next
    case (2 req body chatId fileId filePath t1 audio t2 transcript t3 t4 shown)
    then show ?case
      using synthesis_fault_run(1) [of req body chatId fileId env filePath t1 audio t2 transcript
          t3 reply t4 shown e] speech
      by simp
  next
    case (3 req body chatId fileId filePath t1 audio t2 transcript t3 t4 shown)
    then show ?case
      using synthesis_fault_run(2) [of req body chatId fileId env filePath t1 audio t2 transcript
          t3 reply t4 shown e] speech
      by simp
  next
    case (4 req body chatId fileId filePath t1 audio t2 transcript t3 t4 shown)
    then show ?case
      using synthesis_fault_run(3) [of req body chatId fileId env filePath t1 audio t2 transcript
          t3 reply t4 shown e] speech
      by simp
  qed
qed

theorem stream_error_unreported_witness:
  "truthy (JNum (lit ''42'')) \<and>
   toStream broken_stream (JStr reply_hi) = [Data [1, 2], StreamError (Fault 7)] \<and>
   generateSpeech broken_stream (JStr reply_hi)
     = (Rejected (Fault 7), [(SetMetadata, Accepted), (ToStream (JStr reply_hi), Faulted)]) \<and>
   POST broken_stream (webhook (voice_update (JNum (lit ''42'')) (JStr (lit ''abc''))))
     = (Fulfilled error_response,
        [(GetFile (lit ''abc''), Accepted), (Download (lit ''voice/abc.oga''), Accepted),
         (Transcribe [79, 103, 103, 83, 0, 2, 0, 0, 0], Accepted),
         (Generate (JStr (lit ''hello'')), Accepted),
         (SetMetadata, Accepted), (ToStream (JStr reply_hi), Faulted)]) \<and>
   voice_calls (snd (POST broken_stream (webhook (voice_update (JNum (lit ''42'')) (JStr (lit ''abc'')))))) = [] \<and>
   text_calls (snd (POST broken_stream (webhook (voice_update (JNum (lit ''42'')) (JStr (lit ''abc'')))))) = []"
proof -
  have m: "setMetadata broken_stream = Fulfilled ()"
    by (simp add: broken_stream_def round_trip_def)
  have s: "toStream broken_stream (JStr reply_hi) = map Data [[1, 2]] @ StreamError (Fault 7) # []"
    by (simp add: broken_stream_def)
  note se = stream_error_unreported [OF m s]
  have stages:
    "getTelegramFilePath broken_stream (JStr (lit ''abc''))
       = (Fulfilled (JStr (lit ''voice/abc.oga'')), [(GetFile (lit ''abc''), Accepted)])"
    "downloadTelegramFile broken_stream (JStr (lit ''voice/abc.oga''))
       = (Fulfilled [79, 103, 103, 83, 0, 2, 0, 0, 0], [(Download (lit ''voice/abc.oga''), Accepted)])"
    "transcribeAudio broken_stream [79, 103, 103, 83, 0, 2, 0, 0, 0]
       = (Fulfilled (JStr (lit ''hello'')), [(Transcribe [79, 103, 103, 83, 0, 2, 0, 0, 0], Accepted)])"
    "getTutorResponse broken_stream (JStr (lit ''hello''))
       = (Fulfilled (JStr reply_hi), [(Generate (JStr (lit ''hello'')), Accepted)])"
    "ingress (voice_update (JNum (lit ''42'')) (JStr (lit ''abc'')))
       = ret (Some (JNum (lit ''42''), JStr (lit ''abc'')))"
    by (simp_all add: run_defs broken_stream_def round_trip_def)
  have nb: "\<exists>c \<in> set (lit ''hello''). \<not> is_ws c"
    using hello_not_blank by (simp add: trim_Nil_iff)
  from se have speech: "generateSpeech broken_stream (JStr reply_hi)
      = (Rejected (Fault 7), [(SetMetadata, Accepted), (ToStream (JStr reply_hi), Faulted)])"
    by simp
  from se [THEN conjunct2, rule_format,
      of "webhook (voice_update (JNum (lit ''42'')) (JStr (lit ''abc'')))"
        "voice_update (JNum (lit ''42'')) (JStr (lit ''abc''))"
        "JNum (lit ''42'')" "JStr (lit ''abc'')" "JStr (lit ''voice/abc.oga'')"
        "[(GetFile (lit ''abc''), Accepted)]" "[79, 103, 103, 83, 0, 2, 0, 0, 0]"
        "[(Download (lit ''voice/abc.oga''), Accepted)]" "lit ''hello''"
        "[(Transcribe [79, 103, 103, 83, 0, 2, 0, 0, 0], Accepted)]"
        "[(Generate (JStr (lit ''hello'')), Accepted)]" reply_hi]
    stages nb
  have "POST broken_stream (webhook (voice_update (JNum (lit ''42'')) (JStr (lit ''abc''))))
     = (Fulfilled error_response,
        [(GetFile (lit ''abc''), Accepted), (Download (lit ''voice/abc.oga''), Accepted),
         (Transcribe [79, 103, 103, 83, 0, 2, 0, 0, 0], Accepted),
         (Generate (JStr (lit ''hello'')), Accepted),
         (SetMetadata, Accepted), (ToStream (JStr reply_hi), Faulted)]) \<and>
   voice_calls (snd (POST broken_stream (webhook (voice_update (JNum (lit ''42'')) (JStr (lit ''abc'')))))) = [] \<and>
   text_calls (snd (POST broken_stream (webhook (voice_update (JNum (lit ''42'')) (JStr (lit ''abc'')))))) = []"
    by (simp add: webhook_def)
  with speech s show ?thesis by simp
qed

text \<open>
  C8. What the handler does when the metadata service answers
  \<^verbatim>\<open>{ok: false, description: d}\<close>: \<open>getTelegramFilePath\<close> rejects with an error whose
  message ends with \<open>d\<close>, and on a request whose body cannot be read a second time the
  answer is 500 with \<^verbatim>\<open>{ok: false, error: "Internal server error"}\<close>, the metadata request
  is the only call, and no text is sent to the chat.
\<close>

theorem file_not_found_unreported:
  assumes "to_str fileId = Inr fid"
    and "fetch_getFile env fid = Fulfilled r"
    and "json r = Fulfilled data"
    and "property data (lit ''ok'') = Inr (JBool False)"
    and "property data (lit ''description'') = Inr (JStr description)"
  shows "getTelegramFilePath env fileId
           = (Rejected (Error (lit ''Failed to get file path: '' @ description)),
              [(GetFile fid, if ok r then Accepted else Refused)]) \<and>
         (\<forall>req body chatId.
            request_json req = Fulfilled body \<and>
            ingress body = ret (Some (chatId, fileId)) \<and>
            \<not> clone_readable req
            \<longrightarrow>
            POST env req
              = (Fulfilled error_response, [(GetFile fid, if ok r then Accepted else Refused)]) \<and>
            text_calls (snd (POST env req)) = [])"
proof -
  have fetch: "getTelegramFilePath env fileId
      = (Rejected (Error (lit ''Failed to get file path: '' @ description)),
         [(GetFile fid, if ok r then Accepted else Refused)])"
    by (simp add: getTelegramFilePath_def assms throw_def)
  then have pipe: "pipeline env chatId fileId
      = (Rejected (Error (lit ''Failed to get file path: '' @ description)),
         [(GetFile fid, if ok r then Accepted else Refused)])" for chatId
    by (simp add: pipeline_def)
  have "POST env req
        = (Fulfilled error_response, [(GetFile fid, if ok r then Accepted else Refused)]) \<and>
      text_calls (snd (POST env req)) = []"
    if "request_json req = Fulfilled body" "ingress body = ret (Some (chatId, fileId))"
      "\<not> clone_readable req" for req body chatId
    by (simp add: POST_pipeline [OF that(1,2)] pipe unreadable_request_no_apology [OF that(3)])
  with fetch show ?thesis by blast
qed

theorem file_not_found_unreported_witness:
  "truthy (JNum (lit ''42'')) \<and>
   fetch_getFile file_not_found (lit ''abc'')
     = Fulfilled (answer True (JObj [(lit ''ok'', JBool False),
         (lit ''description'', JStr (lit ''file not found''))]) []) \<and>
   getTelegramFilePath file_not_found (JStr (lit ''abc''))
     = (Rejected (Error (lit ''Failed to get file path: '' @ lit ''file not found'')),
        [(GetFile (lit ''abc''), Accepted)]) \<and>
   POST file_not_found (webhook (voice_update (JNum (lit ''42'')) (JStr (lit ''abc''))))
     = (Fulfilled error_response, [(GetFile (lit ''abc''), Accepted)]) \<and>
   text_calls (snd (POST file_not_found (webhook (voice_update (JNum (lit ''42'')) (JStr (lit ''abc'')))))) = []"
proof -
  have env:
    "to_str (JStr (lit ''abc'')) = Inr (lit ''abc'')"
    "fetch_getFile file_not_found (lit ''abc'')
       = Fulfilled (answer True (JObj [(lit ''ok'', JBool False),
           (lit ''description'', JStr (lit ''file not found''))]) [])"
    "json (answer True (JObj [(lit ''ok'', JBool False),
           (lit ''description'', JStr (lit ''file not found''))]) [])
       = Fulfilled (JObj [(lit ''ok'', JBool False),
           (lit ''description'', JStr (lit ''file not found''))])"
    "property (JObj [(lit ''ok'', JBool False), (lit ''description'', JStr (lit ''file not found''))])
       (lit ''ok'') = Inr (JBool False)"
    "property (JObj [(lit ''ok'', JBool False), (lit ''description'', JStr (lit ''file not found''))])
       (lit ''description'') = Inr (JStr (lit ''file not found''))"
    by (simp_all add: file_not_found_def round_trip_def answer_def)
  note nf = file_not_found_unreported [OF env]
  have req:
    "request_json (webhook (voice_update (JNum (lit ''42'')) (JStr (lit ''abc''))))
       = Fulfilled (voice_update (JNum (lit ''42'')) (JStr (lit ''abc'')))"
    "ingress (voice_update (JNum (lit ''42'')) (JStr (lit ''abc'')))
       = ret (Some (JNum (lit ''42''), JStr (lit ''abc'')))"
    "\<not> clone_readable (webhook (voice_update (JNum (lit ''42'')) (JStr (lit ''abc''))))"
    by (simp_all add: run_defs)
  from nf [THEN conjunct2, rule_format,
      of "webhook (voice_update (JNum (lit ''42'')) (JStr (lit ''abc'')))"
        "voice_update (JNum (lit ''42'')) (JStr (lit ''abc''))" "JNum (lit ''42'')"] req
  have "POST file_not_found (webhook (voice_update (JNum (lit ''42'')) (JStr (lit ''abc''))))
     = (Fulfilled error_response, [(GetFile (lit ''abc''), Accepted)]) \<and>
   text_calls (snd (POST file_not_found (webhook (voice_update (JNum (lit ''42'')) (JStr (lit ''abc'')))))) = []"
    by (simp add: answer_def)
  moreover from nf have "getTelegramFilePath file_not_found (JStr (lit ''abc''))
     = (Rejected (Error (lit ''Failed to get file path: '' @ lit ''file not found'')),
        [(GetFile (lit ''abc''), Accepted)])"
    by (simp add: answer_def)
  ultimately show ?thesis using env(2) by simp
qed

text \<open>
  C9. The handler never rejects, and it answers whenever every promise it waits for
  settles. Its answer is 200 with \<^verbatim>\<open>{ok: true}\<close> when the body of the \<^verbatim>\<open>try\<close> ended without
  a fault (skipped update, notice, voice reply), and 500 with
  \<^verbatim>\<open>{ok: false, error: "Internal server error"}\<close> when a fault was raised there. On a request
  whose body cannot be read a second time the inner \<^verbatim>\<open>try\<close> throws before a notification is
  built, so that 500 is answered exactly when a fault was raised and the notification
  failed with it, and 200 exactly when no fault was raised.
\<close>

theorem response_contract:
  "(\<forall>e. fst (POST env req) \<noteq> Rejected e) \<and>
   (\<forall>r. fst (POST env req) = Fulfilled r \<longrightarrow>
      r = ok_response \<and> (\<exists>v. fst (try_block env req) = Fulfilled v) \<or>
      r = error_response \<and> (\<exists>e. fst (try_block env req) = Rejected e)) \<and>
   (responsive env \<and> request_json req \<noteq> Pending \<longrightarrow> fst (POST env req) \<noteq> Pending) \<and>
   (\<not> clone_readable req \<longrightarrow>
      notify env req = (Rejected TypeError, []) \<and>
      snd (POST env req) = snd (try_block env req) \<and>
      (fst (POST env req) = Fulfilled ok_response \<longleftrightarrow> (\<exists>v. fst (try_block env req) = Fulfilled v)) \<and>
      (fst (POST env req) = Fulfilled error_response \<longleftrightarrow> (\<exists>e. fst (try_block env req) = Rejected e)))"
proof -
  have general: "(\<forall>e. fst (POST env req) \<noteq> Rejected e) \<and>
   (\<forall>r. fst (POST env req) = Fulfilled r \<longrightarrow>
      r = ok_response \<and> (\<exists>v. fst (try_block env req) = Fulfilled v) \<or>
      r = error_response \<and> (\<exists>e. fst (try_block env req) = Rejected e)) \<and>
   (responsive env \<and> request_json req \<noteq> Pending \<longrightarrow> fst (POST env req) \<noteq> Pending)"
  proof (cases "fst (try_block env req)")
    case (Fulfilled v)
    with returns_ok_try_block [of env req] have "v = ok_response"
      by (simp add: returns_ok_def)
    with Fulfilled show ?thesis by (simp add: POST_def fst_catch)
  next
    case (Rejected e)
    then have "fst (POST env req) = fst (on_error env req)"
      by (simp add: POST_def fst_catch)
    moreover have "fst (on_error env req) \<noteq> Pending"
      if "responsive env" "request_json req \<noteq> Pending"
      using settles_on_error [OF that] by (simp add: settles_def)
    ultimately show ?thesis
      using on_error_outcome [of env req] Rejected by auto
  next
    case Pending
    have "\<not> (responsive env \<and> request_json req \<noteq> Pending)"
      using settles_try_block [of env req] Pending by (auto simp add: settles_def)
    with Pending show ?thesis by (simp add: POST_def fst_catch)
  qed
  have real: "notify env req = (Rejected TypeError, []) \<and>
      snd (POST env req) = snd (try_block env req) \<and>
      (fst (POST env req) = Fulfilled ok_response \<longleftrightarrow> (\<exists>v. fst (try_block env req) = Fulfilled v)) \<and>
      (fst (POST env req) = Fulfilled error_response \<longleftrightarrow> (\<exists>e. fst (try_block env req) = Rejected e))"
    if u: "\<not> clone_readable req"
  proof -
    have "v = ok_response" if "fst (try_block env req) = Fulfilled v" for v
      using returns_ok_try_block [of env req] that by (simp add: returns_ok_def)
    then show ?thesis
      by (cases "fst (try_block env req)")
         (auto simp add: POST_unreadable [OF u] notify_unreadable [OF u] throw_def)
  qed
  from general real show ?thesis by blast
qed

theorem response_contract_witness:
  "\<not> clone_readable (webhook (voice_update (JNum (lit ''42'')) (JStr (lit ''abc'')))) \<and>
   fst (try_block file_not_found (webhook (voice_update (JNum (lit ''42'')) (JStr (lit ''abc'')))))
     = Rejected (Error (lit ''Failed to get file path: '' @ lit ''file not found'')) \<and>
   notify file_not_found (webhook (voice_update (JNum (lit ''42'')) (JStr (lit ''abc''))))
     = (Rejected TypeError, []) \<and>
   fst (POST file_not_found (webhook (voice_update (JNum (lit ''42'')) (JStr (lit ''abc'')))))
     = Fulfilled error_response \<and>
   snd (POST file_not_found (webhook (voice_update (JNum (lit ''42'')) (JStr (lit ''abc'')))))
     = [(GetFile (lit ''abc''), Accepted)]"
proof -
  have u: "\<not> clone_readable (webhook (voice_update (JNum (lit ''42'')) (JStr (lit ''abc''))))"
    by (simp add: webhook_def)
  have t: "try_block file_not_found (webhook (voice_update (JNum (lit ''42'')) (JStr (lit ''abc''))))
      = (Rejected (Error (lit ''Failed to get file path: '' @ lit ''file not found'')),
         [(GetFile (lit ''abc''), Accepted)])"
    by (simp add: run_defs file_not_found_def round_trip_def)
  from response_contract
    [of file_not_found "webhook (voice_update (JNum (lit ''42'')) (JStr (lit ''abc'')))"] u t
  show ?thesis by simp
qed

end
